theory Spec2Isabelle
  imports Complex_Main "HOL-Library.Word" "HOL-Library.Sublist"
begin

unbundle bit_operations_syntax

section \<open>Data model of \<open>sniffle_sdr.py\<close>\<close>

text \<open>
  Python integers are \<open>int\<close>, bytes are \<open>8 word\<close>, and every sample rate, time and
  frequency (a Python float in the source) is a rational number, so that the arithmetic
  of the source is exact here; rounding of floating point is not modelled.
  An exception is a value of \<open>py_error\<close>.
\<close>

type_synonym byte = "8 word"

datatype py_error =
    ValueError string
  | UsageError string
  | ZeroDivisionError
  | IndexError
  | OSError
  | AttributeError
  | DecodeError

text \<open>
  Modelled from the spec: \<open>constants.PhyMode\<close> is not under src. The values are the ones
  that the error message of \<open>cmd_chan_aa_phy\<close> lists: 0 (1M), 1 (2M), 2 (coded S=8),
  3 (coded S=2); \<open>PHY_CODED\<close> is the coded mode with S=8.
\<close>

definition PHY_1M :: int where "PHY_1M = 0"
definition PHY_2M :: int where "PHY_2M = 1"
definition PHY_CODED_S8 :: int where "PHY_CODED_S8 = 2"
definition PHY_CODED_S2 :: int where "PHY_CODED_S2 = 3"
definition PHY_CODED :: int where "PHY_CODED = 2"

text \<open>\<open>int(x)\<close> of Python on a float: truncation towards zero.\<close>

definition py_int :: "rat \<Rightarrow> int" where
  "py_int x = (if x < 0 then - \<lfloor>- x\<rfloor> else \<lfloor>x\<rfloor>)"

text \<open>The packet that \<open>PacketMessage.from_fields\<close> builds from its arguments.\<close>

record raw_packet =
  ts :: int
  body_len :: int
  event :: int
  rssi :: int
  pkt_chan :: int
  pkt_phy :: int
  body :: "byte list"
  crc_rev :: int
  crc_err :: bool

text \<open>
  What the worker can put on the packet queue: Python's \<open>None\<close>, the undecoded
  \<open>PacketMessage\<close>, an \<open>AdvertMessage\<close> with its advertiser address \<open>AdvA\<close>
  (which can be \<open>None\<close>), or any other decoded message.
\<close>

datatype message =
    PyNone
  | Raw raw_packet
  | AdvertMessage raw_packet "byte list option"
  | OtherMessage raw_packet

text \<open>
  The collaborators that are imported by \<open>sniffle_sdr.py\<close> and are not under src are
  parameters of the model: \<open>'b\<close> is a buffer of samples, \<open>'y\<close> a symbol sequence,
  \<open>'d\<close> the decoder state. The decoder returns the new decoder state together with
  its message or the exception it raised.
\<close>

record ('b, 'y, 'd) extern =
  BLE_ADV_AA :: int
  BLE_ADV_CRCI :: int
  SnifferMode :: "int list"
  rbit24 :: "int \<Rightarrow> int"
  ble_to_rf_chan :: "int \<Rightarrow> int"
  rf_to_ble_chan :: "int \<Rightarrow> int"
  chan_idx :: "int \<Rightarrow> int \<Rightarrow> int"
  resample :: "'b \<Rightarrow> rat \<Rightarrow> rat \<Rightarrow> rat \<times> 'b"
  fsk_decode :: "'b \<Rightarrow> rat \<Rightarrow> rat \<Rightarrow> bool \<Rightarrow> rat \<Rightarrow> rat \<times> 'y"
  find_sync32 :: "'y \<Rightarrow> int \<Rightarrow> int option"
  calc_rssi :: "'b \<Rightarrow> rat"
  unpack_syms :: "'y \<Rightarrow> int \<Rightarrow> byte list"
  le_dewhiten :: "byte list \<Rightarrow> int \<Rightarrow> byte list"
  crc_ble_reverse :: "int \<Rightarrow> byte list \<Rightarrow> int"
  decode :: "raw_packet option \<Rightarrow> 'd \<Rightarrow> (py_error + message) \<times> 'd"

text \<open>
  The fields of a \<open>SniffleSDR\<close> object. \<open>sdr\<close> is the centre frequency of the radio
  when there is one (the only property of the device that the modelled operations
  set), \<open>file_open\<close> says whether \<open>self.file\<close> is a file, \<open>pktq\<close> is the queue, oldest
  item first.
\<close>

record 'd session =
  sdr :: "rat option"
  file_open :: bool
  pktq :: "message list"
  decoder_state :: 'd
  worker_running :: bool
  use_channelizer :: bool
  fs :: rat
  gain :: int
  chan :: int
  aa :: int
  phy :: int
  crci_rev :: int
  rssi_min :: int
  mac :: "byte list option"
  validate_crc :: bool

section \<open>Session configuration\<close>

definition freq_from_chan :: "('b, 'y, 'd) extern \<Rightarrow> int \<Rightarrow> rat" where
  "freq_from_chan E ch = 2402000000 + of_int (ble_to_rf_chan E ch) * 2000000"

text \<open>
  A configuration operation returns the exception it raised, if any, and the session
  as it is when the call ends: a raise after an assignment keeps the assignment.
\<close>

definition cmd_chan_aa_phy ::
  "('b, 'y, 'd) extern \<Rightarrow> int \<Rightarrow> int \<Rightarrow> int \<Rightarrow> int \<Rightarrow> 'd session \<Rightarrow> py_error option \<times> 'd session" where
  "cmd_chan_aa_phy E ch a p crci s =
     (if \<not> (0 \<le> ch \<and> ch \<le> 39) then
        (Some (ValueError ''Channel must be between 0 and 39''), s)
      else if \<not> (PHY_1M \<le> p \<and> p \<le> PHY_CODED_S2) then
        (Some (ValueError ''PHY must be 0 (1M), 1 (2M), 2 (coded S=8), or 3 (coded S=2)''), s)
      else
        (let s1 = s\<lparr>chan := ch, aa := a, phy := p, crci_rev := rbit24 E crci\<rparr>
         in (None, case sdr s1 of
                     None \<Rightarrow> s1
                   | Some _ \<Rightarrow> s1\<lparr>sdr := Some (freq_from_chan E (chan s1))\<rparr>)))"

definition cmd_rssi :: "int \<Rightarrow> 'd session \<Rightarrow> 'd session" where
  "cmd_rssi r s = s\<lparr>rssi_min := r\<rparr>"

definition cmd_mac :: "byte list option \<Rightarrow> 'd session \<Rightarrow> py_error option \<times> 'd session" where
  "cmd_mac mac_bytes s =
     (case mac_bytes of
        None \<Rightarrow> (None, s\<lparr>mac := None\<rparr>)
      | Some m \<Rightarrow>
          if length m \<noteq> 6 then (Some (ValueError ''MAC must be 6 bytes!''), s)
          else (None, s\<lparr>mac := Some m\<rparr>))"

definition cmd_crc_valid :: "bool \<Rightarrow> 'd session \<Rightarrow> 'd session" where
  "cmd_crc_valid v s = s\<lparr>validate_crc := v\<rparr>"

text \<open>Truth value of an optional byte string: \<open>None\<close> and \<open>b''\<close> are false.\<close>

definition truthy :: "byte list option \<Rightarrow> bool" where
  "truthy x = (case x of None \<Rightarrow> False | Some m \<Rightarrow> m \<noteq> [])"

text \<open>
  \<open>setup_sniffer\<close>, with the arguments that it reads: \<open>interval_preload\<close>,
  \<open>phy_preload\<close> and \<open>pause_done\<close> are never read by the source.
\<close>

definition setup_sniffer ::
  "('b, 'y, 'd) extern \<Rightarrow> int \<Rightarrow> int \<Rightarrow> byte list option \<Rightarrow> byte list option \<Rightarrow> bool \<Rightarrow> bool \<Rightarrow> bool
     \<Rightarrow> int \<Rightarrow> bool \<Rightarrow> 'd session \<Rightarrow> py_error option \<times> 'd session" where
  "setup_sniffer E mode ch targ_mac targ_irk hop3 ext_adv coded_phy rssi_floor validate s =
     (if mode \<notin> set (SnifferMode E) then (Some (ValueError ''Invalid mode requested''), s)
      else if \<not> use_channelizer s \<and> \<not> (37 \<le> ch \<and> ch \<le> 39) then
        (Some (ValueError ''Invalid primary advertising channel''), s)
      else if truthy targ_mac \<and> truthy targ_irk then
        (Some (UsageError ''Can't specify both target MAC and IRK''), s)
      else if hop3 \<and> \<not> (truthy targ_mac \<or> truthy targ_irk) then
        (Some (UsageError ''Must specify a target for advertising channel hop''), s)
      else if coded_phy \<and> \<not> ext_adv then
        (Some (UsageError ''Extended advertising needed for coded PHY''), s)
      else
        (let ch1 = (if use_channelizer s then chan s else ch) in
         case cmd_chan_aa_phy E ch1 (BLE_ADV_AA E) (if coded_phy then PHY_CODED else PHY_1M)
                (BLE_ADV_CRCI E) s of
           (Some e, s1) \<Rightarrow> (Some e, s1)
         | (None, s1) \<Rightarrow>
             (let s2 = cmd_rssi rssi_floor s1 in
              case (if truthy targ_mac then cmd_mac targ_mac s2
                    else if truthy targ_irk then (None, s2)
                    else cmd_mac None s2) of
                (Some e, s3) \<Rightarrow> (Some e, s3)
              | (None, s3) \<Rightarrow> (None, cmd_crc_valid validate s3))))"

section \<open>Burst pipeline\<close>

text \<open>The parts of \<open>process_burst\<close>, in the order of the source.\<close>

definition symbol_rate :: "int \<Rightarrow> rat" where
  "symbol_rate p = (if p = PHY_2M then 2000000 else 1000000)"

text \<open>Resampling and demodulation: the resampled rate, the sample offset, the symbols.\<close>

definition demodulate :: "('b, 'y, 'd) extern \<Rightarrow> 'b \<Rightarrow> rat \<Rightarrow> rat \<Rightarrow> int \<Rightarrow> rat \<times> rat \<times> 'y" where
  "demodulate E burst f cfo p =
     (let (fs_resamp, burst_resamp) =
            (if f < 4000000 then resample E burst f 4000000 else (f, burst));
          (samp_offset, syms) = fsk_decode E burst_resamp fs_resamp (symbol_rate p) True cfo
      in (fs_resamp, samp_offset, syms))"

definition burst_rssi :: "('b, 'y, 'd) extern \<Rightarrow> 'd session \<Rightarrow> 'b \<Rightarrow> int" where
  "burst_rssi E s burst = py_int (calc_rssi E burst - of_int (gain s))"

definition dewhitened :: "('b, 'y, 'd) extern \<Rightarrow> 'y \<Rightarrow> int \<Rightarrow> int \<Rightarrow> byte list" where
  "dewhitened E syms sym_offset ch = le_dewhiten E (drop 4 (unpack_syms E syms sym_offset)) ch"

text \<open>The length test of the source, negated: the data are long enough to be split.\<close>

definition long_enough :: "byte list \<Rightarrow> bool" where
  "long_enough data_dw =
     (\<not> (length data_dw < 2 \<or> int (length data_dw) < 5 + uint (data_dw ! 1)))"

definition body_of :: "byte list \<Rightarrow> byte list" where
  "body_of data_dw = take (unat (data_dw ! 1) + 2) data_dw"

definition crc_bytes_of :: "byte list \<Rightarrow> byte list" where
  "crc_bytes_of data_dw = take 3 (drop (unat (data_dw ! 1) + 2) data_dw)"

definition crc_rev_of :: "byte list \<Rightarrow> int" where
  "crc_rev_of crc_bytes =
     uint (crc_bytes ! 0) OR push_bit 8 (uint (crc_bytes ! 1)) OR push_bit 16 (uint (crc_bytes ! 2))"

text \<open>
  \<open>process_burst\<close>: \<open>Inr None\<close> is the source's \<open>return None\<close>, \<open>Inr (Some pkt)\<close> the
  packet it returns. The division by the resampled rate raises when that rate is zero.
\<close>

definition process_burst ::
  "('b, 'y, 'd) extern \<Rightarrow> 'd session \<Rightarrow> int \<Rightarrow> rat \<Rightarrow> 'b \<Rightarrow> rat \<Rightarrow> rat \<Rightarrow> int
     \<Rightarrow> py_error + raw_packet option" where
  "process_burst E s ch t_burst burst f cfo p =
     (case demodulate E burst f cfo p of (fs_resamp, samp_offset, syms) \<Rightarrow>
        (case find_sync32 E syms (aa s) of
           None \<Rightarrow> Inr None
         | Some sym_offset \<Rightarrow>
             if burst_rssi E s burst < rssi_min s then Inr None
             else if fs_resamp = 0 then Inl ZeroDivisionError
             else
               (let t_sync = t_burst + samp_offset / fs_resamp
                               + of_int sym_offset / symbol_rate p;
                    data_dw = dewhitened E syms sym_offset ch
                in if \<not> long_enough data_dw then Inr None
                   else
                     (let ts32 = py_int (t_sync * 1000000) AND 0x3FFFFFFF;
                          crc_rcv = crc_rev_of (crc_bytes_of data_dw);
                          crc_calc = crc_ble_reverse E (crci_rev s) (body_of data_dw);
                          err = (crc_calc \<noteq> crc_rcv)
                      in if validate_crc s \<and> err then Inr None
                         else Inr (Some \<lparr>ts = ts32, body_len = int (length (body_of data_dw)),
                                          event = 0, rssi = burst_rssi E s burst, pkt_chan = ch,
                                          pkt_phy = phy s, body = body_of data_dw,
                                          crc_rev = crc_rcv, crc_err = err\<rparr>)))))"

section \<open>Streaming worker\<close>

text \<open>
  Python's \<open>xs[i] = v\<close>: an index from \<open>-len(xs)\<close> up to \<open>len(xs) - 1\<close> is valid, a
  negative one counts from the end, any other raises.
\<close>

definition py_set :: "'a list \<Rightarrow> int \<Rightarrow> 'a \<Rightarrow> py_error + 'a list" where
  "py_set xs i v =
     (if 0 \<le> i \<and> i < int (length xs) then Inr (xs[nat i := v])
      else if i < 0 \<and> - int (length xs) \<le> i then Inr (xs[nat (int (length xs) + i) := v])
      else Inl IndexError)"

text \<open>The loop over \<open>range(-chan_max, chan_max + 1)\<close> that fills the channel plan.\<close>

fun plan_loop ::
  "('b, 'y, 'd) extern \<Rightarrow> int \<Rightarrow> int \<Rightarrow> rat \<Rightarrow> int list \<Rightarrow> int option list \<times> rat list
     \<Rightarrow> py_error + int option list \<times> rat list" where
  "plan_loop E n ch chan_err [] plan = Inr plan"
| "plan_loop E n ch chan_err (rf_rel # rest) (channels, channels_cfo) =
     (let idx = chan_idx E n rf_rel;
          rf_abs = ble_to_rf_chan E ch + rf_rel
      in if 0 \<le> rf_abs \<and> rf_abs < 40 then
           (case py_set channels idx (Some (rf_to_ble_chan E rf_abs)) of
              Inl e \<Rightarrow> Inl e
            | Inr channels' \<Rightarrow>
                (case py_set channels_cfo idx (- of_int rf_rel * chan_err) of
                   Inl e \<Rightarrow> Inl e
                 | Inr cfo' \<Rightarrow> plan_loop E n ch chan_err rest (channels', cfo')))
         else plan_loop E n ch chan_err rest (channels, channels_cfo))"

definition num_channels :: "rat \<Rightarrow> int" where
  "num_channels f = py_int (f / 2000000 + 1 / 2)"

definition chan_max :: "rat \<Rightarrow> int" where
  "chan_max f = (num_channels f - 1) div 2"

definition chan_err :: "rat \<Rightarrow> rat" where
  "chan_err f = f / of_int (num_channels f) - 2000000"

text \<open>
  The channel plan of the wideband branch of \<open>_recv_worker\<close>: the decimated rate, the
  BLE channel of every output index (\<open>None\<close> for an unused one) and its correction.
\<close>

definition wideband_plan ::
  "('b, 'y, 'd) extern \<Rightarrow> rat \<Rightarrow> int \<Rightarrow> py_error + rat \<times> int option list \<times> rat list" where
  "wideband_plan E f ch =
     (if num_channels f = 0 then Inl ZeroDivisionError
      else
        (case plan_loop E (num_channels f) ch (chan_err f) [- chan_max f .. chan_max f]
                (replicate (nat (num_channels f)) None, replicate (nat (num_channels f)) 0) of
           Inl e \<Rightarrow> Inl e
         | Inr (channels, channels_cfo) \<Rightarrow>
             Inr (f / of_int (num_channels f), channels, channels_cfo)))"

definition channel_plan ::
  "('b, 'y, 'd) extern \<Rightarrow> 'd session \<Rightarrow> py_error + rat \<times> int option list \<times> rat list" where
  "channel_plan E s =
     (if use_channelizer s then wideband_plan E (fs s) (chan s)
      else Inr (of_int \<lfloor>fs s / 8\<rfloor>, [Some (chan s)], [0]))"

text \<open>The MAC filter of the worker loop: true when the message is skipped.\<close>

definition mac_filtered :: "'d session \<Rightarrow> message \<Rightarrow> bool" where
  "mac_filtered s dpkt =
     (case dpkt of
        AdvertMessage _ (Some adv_a) \<Rightarrow> truthy (mac s) \<and> Some adv_a \<noteq> mac s
      | _ \<Rightarrow> False)"

text \<open>
  The body of the loop over the bursts of one channel. An exception of the decoder
  is caught and \<open>dpkt\<close> is then \<open>pkt\<close> itself, which is \<open>None\<close> when \<open>process_burst\<close>
  returned \<open>None\<close>; an exception of \<open>process_burst\<close> is not caught.
\<close>

definition handle_burst ::
  "('b, 'y, 'd) extern \<Rightarrow> int \<Rightarrow> rat \<Rightarrow> rat \<Rightarrow> rat \<Rightarrow> int \<Rightarrow> 'b \<Rightarrow> 'd session
     \<Rightarrow> py_error option \<times> 'd session" where
  "handle_burst E c t_start fs_decim cfo start_idx burst s =
     (if fs_decim = 0 then (Some ZeroDivisionError, s)
      else
        (case process_burst E s c (t_start + of_int start_idx / fs_decim) burst fs_decim cfo PHY_1M of
           Inl e \<Rightarrow> (Some e, s)
         | Inr pkt \<Rightarrow>
             (case decode E pkt (decoder_state s) of (r, d') \<Rightarrow>
                (let dpkt = (case r of
                               Inl e \<Rightarrow> (case pkt of None \<Rightarrow> PyNone | Some q \<Rightarrow> Raw q)
                             | Inr m \<Rightarrow> m);
                     s1 = s\<lparr>decoder_state := d'\<rparr>
                 in if mac_filtered s1 dpkt then (None, s1)
                    else (None, s1\<lparr>pktq := pktq s1 @ [dpkt]\<rparr>)))))"

fun handle_bursts ::
  "('b, 'y, 'd) extern \<Rightarrow> int \<Rightarrow> rat \<Rightarrow> rat \<Rightarrow> rat \<Rightarrow> (int \<times> 'b) list \<Rightarrow> 'd session
     \<Rightarrow> py_error option \<times> 'd session" where
  "handle_bursts E c t_start fs_decim cfo [] s = (None, s)"
| "handle_bursts E c t_start fs_decim cfo ((start_idx, burst) # rest) s =
     (case handle_burst E c t_start fs_decim cfo start_idx burst s of
        (Some e, s') \<Rightarrow> (Some e, s')
      | (None, s') \<Rightarrow> handle_bursts E c t_start fs_decim cfo rest s')"

text \<open>
  The loop over the channels of one buffer; every entry holds the channel of the plan,
  its correction and the bursts that the channel's detector returned for the buffer.
\<close>

fun handle_channels ::
  "('b, 'y, 'd) extern \<Rightarrow> rat \<Rightarrow> rat \<Rightarrow> (int option \<times> rat \<times> (int \<times> 'b) list) list \<Rightarrow> 'd session
     \<Rightarrow> py_error option \<times> 'd session" where
  "handle_channels E t_start fs_decim [] s = (None, s)"
| "handle_channels E t_start fs_decim ((c, cfo, bursts) # rest) s =
     (case c of
        None \<Rightarrow> handle_channels E t_start fs_decim rest s
      | Some ch \<Rightarrow>
          if ch < 37 then handle_channels E t_start fs_decim rest s
          else
            (case handle_bursts E ch t_start fs_decim cfo bursts s of
               (Some e, s') \<Rightarrow> (Some e, s')
             | (None, s') \<Rightarrow> handle_channels E t_start fs_decim rest s'))"

section \<open>Worker lifecycle\<close>

text \<open>
  What one pass of the \<open>while\<close> loop of \<open>_recv_worker\<close> gets from outside. \<open>Short\<close> is a
  read that ends the loop: fewer samples than asked for from the radio, or an empty
  chunk from the file. \<open>Full\<close> is a buffer, given as the list that the loop over the
  channels walks through: for every output of the channelizer the channel of the
  plan, its correction and the bursts that its detector returned.
\<close>

datatype 'b capture =
    Short
  | Full "(int option \<times> rat \<times> (int \<times> 'b) list) list"

text \<open>
  One pass of the \<open>while\<close> loop: the exception that ended the thread if any, whether
  the loop goes on to test \<open>worker_running\<close> again (\<open>False\<close> is the \<open>break\<close>), and the
  session. A short read of the radio is logged; an empty chunk closes the file and
  sets \<open>self.file\<close> to \<open>None\<close>; reading without radio and without file raises.
\<close>

definition worker_pass ::
  "('b, 'y, 'd) extern \<Rightarrow> rat \<Rightarrow> rat \<Rightarrow> 'b capture \<Rightarrow> 'd session
     \<Rightarrow> py_error option \<times> bool \<times> 'd session" where
  "worker_pass E t_start fs_decim cap s =
     (if sdr s = None \<and> \<not> file_open s then (Some AttributeError, False, s)
      else
        (case cap of
           Short \<Rightarrow> (None, False, if sdr s \<noteq> None then s else s\<lparr>file_open := False\<rparr>)
         | Full chans \<Rightarrow>
             (case handle_channels E t_start fs_decim chans s of
                (e, s') \<Rightarrow> (e, True, s'))))"

text \<open>The statements after the loop: the stream is closed, the flag is cleared.\<close>

definition worker_exit :: "'d session \<Rightarrow> 'd session" where
  "worker_exit s = s\<lparr>worker_running := False\<rparr>"

text \<open>
  What the worker thread still does once \<open>worker_running\<close> has been cleared by another
  thread, until it ends. \<open>in_flight\<close> is \<open>None\<close> when the thread is at the test of the
  loop, and otherwise the rest of the pass it is in (for a pass whose buffer is
  partly processed, the channels and bursts still to do; a burst is handled in one
  step). After the pass the test of the loop fails and the thread leaves through
  \<open>worker_exit\<close>; a thread that ends with an exception leaves the session as it is.
\<close>

definition worker_finish ::
  "('b, 'y, 'd) extern \<Rightarrow> rat \<Rightarrow> rat \<Rightarrow> 'b capture option \<Rightarrow> 'd session \<Rightarrow> 'd session" where
  "worker_finish E t_start fs_decim in_flight s =
     (case in_flight of
        None \<Rightarrow> worker_exit s
      | Some cap \<Rightarrow>
          (case worker_pass E t_start fs_decim cap s of
             (Some e, go, s') \<Rightarrow> s'
           | (None, go, s') \<Rightarrow> worker_exit s'))"

text \<open>
  \<open>cancel_recv\<close>. The join returns when the worker thread has ended, so the session
  after the join is the one that \<open>worker_finish\<close> leaves; \<open>t_start\<close>, \<open>fs_decim\<close> and
  \<open>in_flight\<close> are the local state of that thread. An exception of the worker thread
  is not raised by the join.
\<close>

definition cancel_recv ::
  "('b, 'y, 'd) extern \<Rightarrow> rat \<Rightarrow> rat \<Rightarrow> 'b capture option \<Rightarrow> 'd session \<Rightarrow> 'd session" where
  "cancel_recv E t_start fs_decim in_flight s =
     (if worker_running s then
        (let s1 = s\<lparr>worker_running := False\<rparr>;
             s2 = worker_finish E t_start fs_decim in_flight s1
         in s2\<lparr>pktq := pktq s2 @ [PyNone]\<rparr>)
      else s)"

text \<open>
  The \<open>self.pktq.get()\<close> of \<open>recv_and_decode\<close>: \<open>None\<close> when the queue is empty, where the
  caller blocks, and otherwise the oldest item with the session it leaves.
\<close>

definition pktq_get :: "'d session \<Rightarrow> (message \<times> 'd session) option" where
  "pktq_get s = (case pktq s of [] \<Rightarrow> None | m # ms \<Rightarrow> Some (m, s\<lparr>pktq := ms\<rparr>))"

section \<open>Construction of a session\<close>

text \<open>
  \<open>SniffleSDR.__init__\<close>. What the radio and the file system answer is an argument:
  the sample rates and the antennas that the device lists, and whether the capture
  file opens. \<open>fs\<close> has no value before the driver is looked at; the 0 below is
  overwritten on every path that returns a session.
\<close>

definition SniffleSDR_init ::
  "('b, 'y, 'd) extern \<Rightarrow> string \<Rightarrow> rat list \<Rightarrow> string list \<Rightarrow> bool \<Rightarrow> 'd \<Rightarrow> py_error + 'd session" where
  "SniffleSDR_init E driver rates antennas file_ok d0 =
     (let s = \<lparr>sdr = None, file_open = False, pktq = [], decoder_state = d0,
                worker_running = False, use_channelizer = False, fs = 0, gain = 10,
                chan = 37, aa = BLE_ADV_AA E, phy = PHY_1M,
                crci_rev = rbit24 E (BLE_ADV_CRCI E), rssi_min = - 128, mac = None,
                validate_crc = True\<rparr>
      in if prefix ''rfnm'' driver then
           (if length antennas < 2 then Inl IndexError
            else
              (case (if driver = ''rfnm:full'' then (17, True, 0 :: nat)
                     else if driver = ''rfnm:partial'' then (12, True, 1)
                     else (chan s, False, 1)) of
                 (c, wide, rate_idx) \<Rightarrow>
                   if length rates \<le> rate_idx then Inl IndexError
                   else Inr (s\<lparr>chan := c, use_channelizer := wide, fs := rates ! rate_idx,
                               sdr := Some (freq_from_chan E c)\<rparr>)))
         else if prefix ''file:'' driver then
           (if file_ok then
              Inr (s\<lparr>file_open := True, fs := 122880000, chan := 17, use_channelizer := True\<rparr>)
            else Inl OSError)
         else Inl (ValueError ''Unknown driver''))"

section \<open>An instance of the collaborators\<close>

text \<open>
  Modelled from the spec: \<open>pcap.rf_to_ble_chan\<close> and \<open>pcap.ble_to_rf_chan\<close> are not under
  src, and the spec names them "BLE-channel-number" and "RF-index" without defining
  them. The two functions below are the channel numbering of Bluetooth LE (advertising
  channels 37, 38, 39 at RF index 0, 12, 39), which agrees with the comments of the
  source: channel 17 at 2440 MHz, channel 12 at 2430 MHz.
\<close>

definition rf_to_ble_std :: "int \<Rightarrow> int" where
  "rf_to_ble_std rf =
     (if rf = 0 then 37 else if rf \<le> 11 then rf - 1 else if rf = 12 then 38
      else if rf \<le> 38 then rf - 2 else 39)"

definition ble_to_rf_std :: "int \<Rightarrow> int" where
  "ble_to_rf_std c =
     (if c = 37 then 0 else if c = 38 then 12 else if c = 39 then 39
      else if c \<le> 10 then c + 1 else c + 2)"

text \<open>
  A loop-back instance, on which the pipeline can be evaluated. A burst is its signal
  level in dBm with the bytes it carries, access address first; demodulation at
  1 Msym/s hands the bytes over and at any other rate finds nothing; whitening is the
  identity; the CRC is the sum of the bytes added to the initial value; the decoder
  counts its calls, fails on \<open>None\<close> and on a body of less than 8 bytes, and reads
  the advertiser address at offset 2 of a body received on an advertising channel.
\<close>

definition aa_bytes :: "int \<Rightarrow> byte list" where
  "aa_bytes a = [word_of_int a, word_of_int (drop_bit 8 a), word_of_int (drop_bit 16 a),
                 word_of_int (drop_bit 24 a)]"

fun rbits :: "nat \<Rightarrow> int \<Rightarrow> int \<Rightarrow> int" where
  "rbits 0 x acc = acc"
| "rbits (Suc k) x acc = rbits k (x div 2) (acc * 2 + x mod 2)"

definition loopback_decode :: "raw_packet option \<Rightarrow> nat \<Rightarrow> (py_error + message) \<times> nat" where
  "loopback_decode pkt d =
     (case pkt of
        None \<Rightarrow> (Inl AttributeError, d)
      | Some q \<Rightarrow>
          if length (body q) < 8 then (Inl DecodeError, Suc d)
          else if 37 \<le> pkt_chan q then
            (Inr (AdvertMessage q (Some (take 6 (drop 2 (body q))))), Suc d)
          else (Inr (OtherMessage q), Suc d))"

definition loopback :: "(rat \<times> byte list, byte list, nat) extern" where
  "loopback =
     \<lparr>BLE_ADV_AA = 0x8E89BED6, BLE_ADV_CRCI = 0x555555, SnifferMode = [0, 1, 2],
      rbit24 = (\<lambda>x. rbits 24 x 0),
      ble_to_rf_chan = ble_to_rf_std, rf_to_ble_chan = rf_to_ble_std,
      chan_idx = (\<lambda>n r. r mod n),
      resample = (\<lambda>b f f'. (f', b)),
      fsk_decode = (\<lambda>b f sr hard cfo. (0, if sr = 1000000 then snd b else [])),
      find_sync32 = (\<lambda>y a. if take 4 y = aa_bytes a then Some 0 else None),
      calc_rssi = fst,
      unpack_syms = (\<lambda>y off. drop (nat off) y),
      le_dewhiten = (\<lambda>d ch. d),
      crc_ble_reverse = (\<lambda>init bs. (init + sum_list (map uint bs)) mod 16777216),
      decode = loopback_decode\<rparr>"

text \<open>
  The session that \<open>SniffleSDR_init\<close> builds for a capture file, with the loop-back
  collaborators (\<open>0xAAAAAA\<close> is \<open>0x555555\<close> with its 24 bits reversed).
\<close>

definition file_session :: "nat session" where
  "file_session =
     \<lparr>sdr = None, file_open = True, pktq = [], decoder_state = 0,
      worker_running = False, use_channelizer = True, fs = 122880000, gain = 10,
      chan = 17, aa = 0x8E89BED6, phy = 0, crci_rev = 0xAAAAAA, rssi_min = - 128,
      mac = None, validate_crc = True\<rparr>"

text \<open>A single-channel session with a radio tuned to channel 37, built likewise.\<close>

definition radio_session :: "nat session" where
  "radio_session =
     \<lparr>sdr = Some 2402000000, file_open = False, pktq = [], decoder_state = 0,
      worker_running = False, use_channelizer = False, fs = 15360000, gain = 10,
      chan = 37, aa = 0x8E89BED6, phy = 0, crci_rev = 0xAAAAAA, rssi_min = - 128,
      mac = None, validate_crc = True\<rparr>"

text \<open>
  Bursts for the loop-back instance. \<open>adv_burst\<close> carries the access address of the
  advertising channels, a body of 8 bytes (header \<open>0x40\<close>, length byte 6, the address
  01:02:03:04:05:06) and the CRC of that body; in \<open>bad_crc_burst\<close> one bit of the last
  payload byte is flipped; \<open>short_body_burst\<close> has an empty payload, which the
  loop-back decoder refuses; \<open>truncated_burst\<close> ends before the length that its
  length byte announces; \<open>noise_burst\<close> holds no access address.
\<close>

definition adv_body :: "byte list" where
  "adv_body = [0x40, 6, 1, 2, 3, 4, 5, 6]"

definition adv_burst :: "rat \<times> byte list" where
  "adv_burst = (- 50, [0xD6, 0xBE, 0x89, 0x8E] @ adv_body @ [0x05, 0xAB, 0xAA])"

definition bad_crc_burst :: "rat \<times> byte list" where
  "bad_crc_burst = (- 50, [0xD6, 0xBE, 0x89, 0x8E, 0x40, 6, 1, 2, 3, 4, 5, 7, 0x05, 0xAB, 0xAA])"

definition short_body_burst :: "rat \<times> byte list" where
  "short_body_burst = (- 50, [0xD6, 0xBE, 0x89, 0x8E, 0x40, 0, 0xEA, 0xAA, 0xAA])"

definition truncated_burst :: "rat \<times> byte list" where
  "truncated_burst = (- 50, [0xD6, 0xBE, 0x89, 0x8E, 0x40, 6, 1, 2])"

definition noise_burst :: "rat \<times> byte list" where
  "noise_burst = (- 50, [1, 2, 3, 4, 5])"


text \<open>The packet that \<open>adv_burst\<close> gives on channel 37 at time 0 in \<open>file_session\<close>.\<close>

definition adv_packet :: raw_packet where
  "adv_packet =
     \<lparr>ts = 0, body_len = 8, event = 0, rssi = - 60, pkt_chan = 37, pkt_phy = 0,
      body = adv_body, crc_rev = 0xAAAB05, crc_err = False\<rparr>"

text \<open>The packet that \<open>short_body_burst\<close> gives likewise.\<close>

definition short_packet :: raw_packet where
  "short_packet =
     \<lparr>ts = 0, body_len = 2, event = 0, rssi = - 60, pkt_chan = 37, pkt_phy = 0,
      body = [0x40, 0], crc_rev = 0xAAAAEA, crc_err = False\<rparr>"

section \<open>Evaluation of the loop-back instance\<close>

lemma rbits_crci: "rbits 24 0x555555 0 = 0xAAAAAA"
  by code_simp

lemma aa_bytes_adv: "aa_bytes 0x8E89BED6 = [0xD6, 0xBE, 0x89, 0x8E]"
  by (simp add: aa_bytes_def drop_bit_eq_div)

lemma demodulate_loopback:
  "demodulate loopback b 2000000 cfo PHY_1M = (4000000, 0, snd b)"
  by (simp add: demodulate_def loopback_def symbol_rate_def PHY_1M_def PHY_2M_def)

lemma find_sync32_loopback:
  "find_sync32 loopback y 0x8E89BED6 = (if take 4 y = [0xD6, 0xBE, 0x89, 0x8E] then Some 0 else None)"
  by (simp add: loopback_def aa_bytes_adv)

lemma dewhitened_loopback: "dewhitened loopback y 0 c = drop 4 y"
  by (simp add: dewhitened_def loopback_def)

lemma burst_rssi_loopback:
  "burst_rssi loopback s (of_int l, y) = (if l - gain s < 0 then - \<lfloor>- (of_int (l - gain s) :: rat)\<rfloor> else l - gain s)"
  by (simp add: burst_rssi_def loopback_def py_int_def)

lemma crc_loopback:
  "crc_ble_reverse loopback i bs = (i + sum_list (map uint bs)) mod 16777216"
  by (simp add: loopback_def)

lemma decode_loopback: "decode loopback = loopback_decode"
  by (simp add: loopback_def)

lemma init_file_session:
  "SniffleSDR_init loopback ''file:capture.cf32'' [] [] True 0 = Inr file_session"
  unfolding SniffleSDR_init_def file_session_def loopback_def PHY_1M_def
  by (simp add: rbits_crci)

lemma init_radio_session:
  "SniffleSDR_init loopback ''rfnm:single'' [122880000, 15360000] [''RX1'', ''RX2''] True 0
     = Inr radio_session"
  unfolding SniffleSDR_init_def radio_session_def loopback_def PHY_1M_def freq_from_chan_def
    ble_to_rf_std_def
  by (simp add: rbits_crci)

section \<open>Properties of the session configuration\<close>

lemma cmd_chan_aa_phy_rejects:
  "\<not> (0 \<le> ch \<and> ch \<le> 39) \<or> \<not> (p \<in> {0, 1, 2, 3})
     \<Longrightarrow> \<exists>e. cmd_chan_aa_phy E ch a p crci s = (Some e, s)"
  by (auto simp: cmd_chan_aa_phy_def PHY_1M_def PHY_CODED_S2_def)

lemma cmd_chan_aa_phy_accepts:
  "0 \<le> ch \<Longrightarrow> ch \<le> 39 \<Longrightarrow> p \<in> {0, 1, 2, 3}
     \<Longrightarrow> fst (cmd_chan_aa_phy E ch a p crci s) = None"
  by (auto simp: cmd_chan_aa_phy_def PHY_1M_def PHY_CODED_S2_def Let_def)

lemma cmd_mac_rejects:
  "length m \<noteq> 6 \<Longrightarrow> cmd_mac (Some m) s = (Some (ValueError ''MAC must be 6 bytes!''), s)"
  by (simp add: cmd_mac_def)

lemma setup_sniffer_early_rejects:
  assumes "mode \<notin> set (SnifferMode E)
           \<or> (\<not> use_channelizer s \<and> \<not> (37 \<le> ch \<and> ch \<le> 39))
           \<or> (truthy targ_mac \<and> truthy targ_irk)
           \<or> (hop3 \<and> \<not> truthy targ_mac \<and> \<not> truthy targ_irk)
           \<or> (coded_phy \<and> \<not> ext_adv)"
  shows "\<exists>e. setup_sniffer E mode ch targ_mac targ_irk hop3 ext_adv coded_phy r v s = (Some e, s)"
  using assms unfolding setup_sniffer_def by auto

text \<open>
  C6 (fails on the code). Every configuration operation is claimed to leave the session
  unchanged when it rejects its input. The rejections that are listed with the claim do
  so (\<open>cmd_chan_aa_phy_rejects\<close>, \<open>cmd_mac_rejects\<close>, \<open>setup_sniffer_early_rejects\<close>),
  but \<open>setup_sniffer\<close> checks the length of the target MAC only in its call of
  \<open>cmd_mac\<close>, after \<open>cmd_chan_aa_phy\<close> and \<open>cmd_rssi\<close> have assigned: with a target of
  5 bytes, on a single-channel session at channel 37 with floor -128, the call raises
  \<open>ValueError\<close> and the session has changed its channel, the frequency of the radio
  and the RSSI floor.
\<close>

theorem setup_sniffer_short_mac:
  "setup_sniffer loopback 0 38 (Some [1, 2, 3, 4, 5]) None False False False (- 40) True radio_session
     = (Some (ValueError ''MAC must be 6 bytes!''),
        radio_session\<lparr>sdr := Some 2426000000, chan := 38, rssi_min := - 40\<rparr>)"
  unfolding setup_sniffer_def
  by (simp add: loopback_def radio_session_def truthy_def cmd_chan_aa_phy_def cmd_rssi_def
      cmd_mac_def PHY_1M_def PHY_CODED_S2_def freq_from_chan_def ble_to_rf_std_def rbits_crci)

section \<open>Properties of the burst pipeline\<close>

lemma process_burst_no_sync:
  assumes "demodulate E burst f cfo p = (fr, off, syms)"
    and "find_sync32 E syms (aa s) = None"
  shows "process_burst E s ch t burst f cfo p = Inr None"
  using assms by (simp add: process_burst_def)


lemma process_burst_synced:
  assumes "demodulate E burst f cfo p = (fr, off, syms)"
    and "find_sync32 E syms (aa s) = Some k"
    and "\<not> burst_rssi E s burst < rssi_min s"
    and "fr \<noteq> 0"
  shows "process_burst E s ch t burst f cfo p =
     (let dw = dewhitened E syms k ch in
      if length dw < 2 \<or> int (length dw) < 5 + uint (dw ! 1) then Inr None
      else if validate_crc s \<and>
              crc_ble_reverse E (crci_rev s) (body_of dw) \<noteq> crc_rev_of (crc_bytes_of dw)
           then Inr None
      else Inr (Some \<lparr>ts = py_int ((t + off / fr + of_int k / symbol_rate p) * 1000000)
                            AND 0x3FFFFFFF,
                       body_len = int (length (body_of dw)), event = 0,
                       rssi = burst_rssi E s burst, pkt_chan = ch, pkt_phy = phy s,
                       body = body_of dw, crc_rev = crc_rev_of (crc_bytes_of dw),
                       crc_err = (crc_ble_reverse E (crci_rev s) (body_of dw)
                                    \<noteq> crc_rev_of (crc_bytes_of dw))\<rparr>))"
  unfolding process_burst_def
  apply (subst assms(1))
  apply (simp only: prod.case assms(2) option.case assms(3) assms(4) if_False Let_def
      long_enough_def not_not)
  done

lemma split_lengths:
  assumes "\<not> (length dw < 2 \<or> int (length dw) < 5 + uint (dw ! 1))"
  shows "unat (dw ! 1) + 5 \<le> length dw"
proof -
  have "int (unat (dw ! 1)) = uint (dw ! 1)" by simp
  with assms show ?thesis by linarith
qed

lemma body_of_length:
  assumes "unat (dw ! 1) + 5 \<le> length dw"
  shows "length (body_of dw) = unat (dw ! 1) + 2"
  using assms by (simp add: body_of_def)

lemma crc_bytes_of_nth:
  assumes "unat (dw ! 1) + 5 \<le> length dw"
  shows "crc_bytes_of dw
           = [dw ! (unat (dw ! 1) + 2), dw ! (unat (dw ! 1) + 3), dw ! (unat (dw ! 1) + 4)]"
proof (rule nth_equalityI)
  show "length (crc_bytes_of dw)
          = length [dw ! (unat (dw ! 1) + 2), dw ! (unat (dw ! 1) + 3), dw ! (unat (dw ! 1) + 4)]"
    using assms by (simp add: crc_bytes_of_def)
next
  fix i assume "i < length (crc_bytes_of dw)"
  then have i: "i < 3" by (simp add: crc_bytes_of_def)
  then have "i = 0 \<or> i = 1 \<or> i = 2" by linarith
  then show "crc_bytes_of dw ! i
          = [dw ! (unat (dw ! 1) + 2), dw ! (unat (dw ! 1) + 3), dw ! (unat (dw ! 1) + 4)] ! i"
    using assms by (auto simp: crc_bytes_of_def eval_nat_numeral)
qed

lemma body_then_crc:
  assumes "unat (dw ! 1) + 5 \<le> length dw"
  shows "body_of dw @ crc_bytes_of dw = take (unat (dw ! 1) + 5) dw"
proof -
  have "take (unat (dw ! 1) + 2 + 3) dw = body_of dw @ crc_bytes_of dw"
    unfolding body_of_def crc_bytes_of_def by (rule take_add)
  moreover have "unat (dw ! 1) + 2 + 3 = unat (dw ! 1) + 5" by simp
  ultimately show ?thesis by (simp only:)
qed

lemmas loopback_eval =
  demodulate_loopback find_sync32_loopback dewhitened_loopback crc_loopback
  burst_rssi_def py_int_def body_of_def crc_bytes_of_def crc_rev_of_def
  file_session_def adv_burst_def adv_body_def bad_crc_burst_def short_body_burst_def
  truncated_burst_def noise_burst_def

lemma calc_rssi_loopback: "calc_rssi loopback b = fst b"
  by (simp add: loopback_def)

lemma symbol_rate_1M: "symbol_rate PHY_1M = 1000000"
  by (simp add: symbol_rate_def PHY_1M_def PHY_2M_def)

lemma process_adv:
  "process_burst loopback file_session 37 0 adv_burst 2000000 0 PHY_1M = Inr (Some adv_packet)"
  unfolding process_burst_def
  by (simp add: loopback_eval calc_rssi_loopback adv_packet_def symbol_rate_1M long_enough_def)

lemma process_noise:
  "process_burst loopback file_session 37 0 noise_burst 2000000 0 PHY_1M = Inr None"
  unfolding process_burst_def
  by (simp add: loopback_eval)


text \<open>
  C2. In \<open>process_burst\<close>, for a burst that reached the CRC comparison (sync found,
  RSSI not below the floor, data long enough): when the CRC computed over the body
  differs from the received CRC, the burst is rejected if CRC validation is enabled,
  and a packet with its CRC-mismatch flag set is produced if it is disabled; when the
  two agree, a packet with the flag cleared is produced.
\<close>

theorem crc_mismatch_policy:
  assumes "demodulate E burst f cfo p = (fr, off, syms)"
    and "find_sync32 E syms (aa s) = Some k"
    and "\<not> burst_rssi E s burst < rssi_min s"
    and "fr \<noteq> 0"
    and "dw = dewhitened E syms k ch"
    and "\<not> (length dw < 2 \<or> int (length dw) < 5 + uint (dw ! 1))"
    and "crc_calc = crc_ble_reverse E (crci_rev s) (body_of dw)"
    and "crc_rcv = crc_rev_of (crc_bytes_of dw)"
  shows "(crc_calc \<noteq> crc_rcv \<and> validate_crc s \<longrightarrow>
            process_burst E s ch t burst f cfo p = Inr None)
       \<and> (crc_calc \<noteq> crc_rcv \<and> \<not> validate_crc s \<longrightarrow>
            (\<exists>q. process_burst E s ch t burst f cfo p = Inr (Some q) \<and> crc_err q))
       \<and> (crc_calc = crc_rcv \<longrightarrow>
            (\<exists>q. process_burst E s ch t burst f cfo p = Inr (Some q) \<and> \<not> crc_err q))"
proof -
  note pb = process_burst_synced [OF assms(1-4), of ch t, folded assms(5)]
  show ?thesis
    unfolding pb Let_def using assms(6-8) by simp
qed

theorem crc_mismatch_policy_witness:
  "process_burst loopback file_session 37 0 bad_crc_burst 2000000 0 PHY_1M = Inr None
   \<and> (\<exists>q. process_burst loopback (file_session\<lparr>validate_crc := False\<rparr>) 37 0 bad_crc_burst
             2000000 0 PHY_1M = Inr (Some q) \<and> crc_err q)
   \<and> (\<exists>q. process_burst loopback file_session 37 0 adv_burst 2000000 0 PHY_1M = Inr (Some q)
          \<and> \<not> crc_err q)"
proof -
  have a: "process_burst loopback file_session 37 0 bad_crc_burst 2000000 0 PHY_1M = Inr None"
    using crc_mismatch_policy [where E = loopback and burst = bad_crc_burst and f = 2000000
        and cfo = 0 and p = PHY_1M and fr = 4000000 and off = 0 and syms = "snd bad_crc_burst"
        and s = file_session and k = 0 and ch = 37 and t = 0, OF _ _ _ _ refl _ refl refl]
    by (simp add: loopback_eval calc_rssi_loopback)
  have b: "\<exists>q. process_burst loopback (file_session\<lparr>validate_crc := False\<rparr>) 37 0 bad_crc_burst
             2000000 0 PHY_1M = Inr (Some q) \<and> crc_err q"
    using crc_mismatch_policy [where E = loopback and burst = bad_crc_burst and f = 2000000
        and cfo = 0 and p = PHY_1M and fr = 4000000 and off = 0 and syms = "snd bad_crc_burst"
        and s = "file_session\<lparr>validate_crc := False\<rparr>" and k = 0 and ch = 37 and t = 0,
        OF _ _ _ _ refl _ refl refl]
    by (simp add: loopback_eval calc_rssi_loopback)
  have c: "\<exists>q. process_burst loopback file_session 37 0 adv_burst 2000000 0 PHY_1M = Inr (Some q)
          \<and> \<not> crc_err q"
    using crc_mismatch_policy [where E = loopback and burst = adv_burst and f = 2000000
        and cfo = 0 and p = PHY_1M and fr = 4000000 and off = 0 and syms = "snd adv_burst"
        and s = file_session and k = 0 and ch = 37 and t = 0, OF _ _ _ _ refl _ refl refl]
    by (simp add: loopback_eval calc_rssi_loopback)
  from a b c show ?thesis by blast
qed






text \<open>
  The conversion to an integer truncates towards zero: a level of -60.5 dBm after the
  gain is the RSSI -60, at which a floor of -60 does not reject.
\<close>

lemma rssi_truncation_example:
  "burst_rssi loopback file_session (- 101 / 2, y) = - 60"
  by (simp add: burst_rssi_def calc_rssi_loopback file_session_def py_int_def floor_eq_iff)

text \<open>
  C4, amended. The length test of \<open>process_burst\<close>, for a burst that reached it (sync
  found, RSSI not below the floor), with \<open>dw\<close> the de-whitened data and \<open>n\<close> its second
  byte. When \<open>dw\<close> has less than 2 bytes or less than \<open>5 + n\<close> bytes the burst is
  rejected. Otherwise the body is the first \<open>n + 2\<close> bytes of \<open>dw\<close> and the received CRC
  is made of the 3 bytes that follow, a packet with this body and this CRC is produced
  unless CRC validation is enabled and the computed CRC differs from the received one,
  and that is the only rejection left. So "no packet" is equivalent to the length
  condition when CRC validation is switched off, and not in general.
\<close>

theorem length_gate_and_split:
  assumes "demodulate E burst f cfo p = (fr, off, syms)"
    and "find_sync32 E syms (aa s) = Some k"
    and "\<not> burst_rssi E s burst < rssi_min s"
    and "fr \<noteq> 0"
    and "dw = dewhitened E syms k ch"
    and "n = unat (dw ! 1)"
  shows "(length dw < 2 \<or> int (length dw) < 5 + uint (dw ! 1) \<longrightarrow>
            process_burst E s ch t burst f cfo p = Inr None)
       \<and> (\<not> (length dw < 2 \<or> int (length dw) < 5 + uint (dw ! 1)) \<longrightarrow>
            length (take (n + 2) dw) = n + 2
            \<and> (\<forall>q. process_burst E s ch t burst f cfo p = Inr (Some q) \<longrightarrow>
                   body q = take (n + 2) dw
                   \<and> crc_rev q = crc_rev_of [dw ! (n + 2), dw ! (n + 3), dw ! (n + 4)])
            \<and> (process_burst E s ch t burst f cfo p = Inr None \<longleftrightarrow>
                   validate_crc s
                   \<and> crc_ble_reverse E (crci_rev s) (take (n + 2) dw)
                        \<noteq> crc_rev_of [dw ! (n + 2), dw ! (n + 3), dw ! (n + 4)])
            \<and> (\<not> (validate_crc s
                     \<and> crc_ble_reverse E (crci_rev s) (take (n + 2) dw)
                          \<noteq> crc_rev_of [dw ! (n + 2), dw ! (n + 3), dw ! (n + 4)]) \<longrightarrow>
                 (\<exists>q. process_burst E s ch t burst f cfo p = Inr (Some q)
                      \<and> body q = take (n + 2) dw \<and> body_len q = int n + 2
                      \<and> crc_rev q = crc_rev_of [dw ! (n + 2), dw ! (n + 3), dw ! (n + 4)])))
       \<and> (process_burst E (s\<lparr>validate_crc := False\<rparr>) ch t burst f cfo p = Inr None \<longleftrightarrow>
            length dw < 2 \<or> int (length dw) < 5 + uint (dw ! 1))"
proof -
  note pb = process_burst_synced [OF assms(1-4), of ch t, folded assms(5)]
  have g': "\<not> burst_rssi E (s\<lparr>validate_crc := False\<rparr>) burst < rssi_min (s\<lparr>validate_crc := False\<rparr>)"
    using assms(3) by (simp add: burst_rssi_def)
  have y': "find_sync32 E syms (aa (s\<lparr>validate_crc := False\<rparr>)) = Some k"
    using assms(2) by simp
  note pb' = process_burst_synced [OF assms(1) y' g' assms(4), of ch t, folded assms(5)]
  have last: "process_burst E (s\<lparr>validate_crc := False\<rparr>) ch t burst f cfo p = Inr None \<longleftrightarrow>
            length dw < 2 \<or> int (length dw) < 5 + uint (dw ! 1)"
    unfolding pb' Let_def by simp
  have first: "length dw < 2 \<or> int (length dw) < 5 + uint (dw ! 1) \<Longrightarrow>
            process_burst E s ch t burst f cfo p = Inr None"
    unfolding pb Let_def by simp
  have mid: "length (take (n + 2) dw) = n + 2
            \<and> (\<forall>q. process_burst E s ch t burst f cfo p = Inr (Some q) \<longrightarrow>
                   body q = take (n + 2) dw
                   \<and> crc_rev q = crc_rev_of [dw ! (n + 2), dw ! (n + 3), dw ! (n + 4)])
            \<and> (process_burst E s ch t burst f cfo p = Inr None \<longleftrightarrow>
                   validate_crc s
                   \<and> crc_ble_reverse E (crci_rev s) (take (n + 2) dw)
                        \<noteq> crc_rev_of [dw ! (n + 2), dw ! (n + 3), dw ! (n + 4)])
            \<and> (\<not> (validate_crc s
                     \<and> crc_ble_reverse E (crci_rev s) (take (n + 2) dw)
                          \<noteq> crc_rev_of [dw ! (n + 2), dw ! (n + 3), dw ! (n + 4)]) \<longrightarrow>
                 (\<exists>q. process_burst E s ch t burst f cfo p = Inr (Some q)
                      \<and> body q = take (n + 2) dw \<and> body_len q = int n + 2
                      \<and> crc_rev q = crc_rev_of [dw ! (n + 2), dw ! (n + 3), dw ! (n + 4)]))"
    if ok: "\<not> (length dw < 2 \<or> int (length dw) < 5 + uint (dw ! 1))"
  proof -
    have len: "unat (dw ! 1) + 5 \<le> length dw"
      using ok by (rule split_lengths)
    have b: "body_of dw = take (n + 2) dw"
      by (simp add: body_of_def assms(6))
    have c: "crc_bytes_of dw = [dw ! (n + 2), dw ! (n + 3), dw ! (n + 4)]"
      using crc_bytes_of_nth [OF len] by (simp add: assms(6))
    have l: "length (take (n + 2) dw) = n + 2"
      using len by (simp add: assms(6))
    show ?thesis
      unfolding pb Let_def b c using ok l by auto
  qed
  from first mid last show ?thesis by blast
qed

theorem length_gate_and_split_witness:
  "process_burst loopback file_session 37 0 truncated_burst 2000000 0 PHY_1M = Inr None
   \<and> (\<exists>q. process_burst loopback file_session 37 0 adv_burst 2000000 0 PHY_1M = Inr (Some q)
          \<and> body q = [0x40, 6, 1, 2, 3, 4, 5, 6] \<and> crc_rev q = 0xAAAB05)"
proof -
  have a: "process_burst loopback file_session 37 0 truncated_burst 2000000 0 PHY_1M = Inr None"
    using length_gate_and_split [where E = loopback and burst = truncated_burst and f = 2000000
        and cfo = 0 and p = PHY_1M and fr = 4000000 and off = 0 and syms = "snd truncated_burst"
        and s = file_session and k = 0 and ch = 37 and t = 0, OF _ _ _ _ refl refl]
    by (simp add: loopback_eval calc_rssi_loopback)
  note b = length_gate_and_split [where E = loopback and burst = adv_burst and f = 2000000
        and cfo = 0 and p = PHY_1M and fr = 4000000 and off = 0 and syms = "snd adv_burst"
        and s = file_session and k = 0 and ch = 37 and t = 0, OF _ _ _ _ refl refl]
  have c: "\<forall>q. process_burst loopback file_session 37 0 adv_burst 2000000 0 PHY_1M = Inr (Some q) \<longrightarrow>
          body q = [0x40, 6, 1, 2, 3, 4, 5, 6] \<and> crc_rev q = 0xAAAB05"
    using b by (simp add: loopback_eval calc_rssi_loopback)
  with process_adv have "body adv_packet = [0x40, 6, 1, 2, 3, 4, 5, 6] \<and> crc_rev adv_packet = 0xAAAB05"
    by blast
  with process_adv a show ?thesis by blast
qed

text \<open>
  With "rejected if and only if the data are too short" the claim fails:
  \<open>bad_crc_burst\<close> has 11 de-whitened bytes and the length byte 6, so it is long
  enough, and with CRC validation enabled it is rejected all the same.
\<close>

lemma process_bad_crc:
  "process_burst loopback file_session 37 0 bad_crc_burst 2000000 0 PHY_1M = Inr None"
  unfolding process_burst_def
  by (simp add: loopback_eval calc_rssi_loopback symbol_rate_1M long_enough_def)

theorem length_gate_counterexample:
  "2 \<le> length (dewhitened loopback (snd bad_crc_burst) 0 37)
   \<and> 5 + uint (dewhitened loopback (snd bad_crc_burst) 0 37 ! 1)
       \<le> int (length (dewhitened loopback (snd bad_crc_burst) 0 37))
   \<and> find_sync32 loopback (snd bad_crc_burst) (aa file_session) = Some 0
   \<and> process_burst loopback file_session 37 0 bad_crc_burst 2000000 0 PHY_1M = Inr None"
proof -
  have "2 \<le> length (dewhitened loopback (snd bad_crc_burst) 0 37)
   \<and> 5 + uint (dewhitened loopback (snd bad_crc_burst) 0 37 ! 1)
       \<le> int (length (dewhitened loopback (snd bad_crc_burst) 0 37))
   \<and> find_sync32 loopback (snd bad_crc_burst) (aa file_session) = Some 0"
    by (simp add: dewhitened_loopback find_sync32_loopback bad_crc_burst_def file_session_def)
  with process_bad_crc show ?thesis by simp
qed

section \<open>Properties of the worker loop\<close>

lemma handle_burst_unfold:
  assumes "fs_decim \<noteq> 0"
    and "process_burst E s c (t_start + of_int i / fs_decim) burst fs_decim cfo PHY_1M = Inr pkt"
    and "decode E pkt (decoder_state s) = (r, d')"
    and "dpkt = (case r of Inl e \<Rightarrow> (case pkt of None \<Rightarrow> PyNone | Some q \<Rightarrow> Raw q) | Inr m \<Rightarrow> m)"
  shows "handle_burst E c t_start fs_decim cfo i burst s =
           (None, if mac_filtered s dpkt then s\<lparr>decoder_state := d'\<rparr>
                  else s\<lparr>decoder_state := d', pktq := pktq s @ [dpkt]\<rparr>)"
proof -
  have m: "mac_filtered (s\<lparr>decoder_state := d'\<rparr>) dpkt = mac_filtered s dpkt"
    by (simp add: mac_filtered_def split: message.splits option.splits)
  show ?thesis
    unfolding handle_burst_def using assms(1) m
    by (simp add: assms(2) assms(3) assms(4) Let_def)
qed

lemma handle_burst_rejected:
  assumes "fs_decim \<noteq> 0"
    and "process_burst E s c (t_start + of_int i / fs_decim) burst fs_decim cfo PHY_1M = Inr None"
    and "decode E None (decoder_state s) = (Inl e, d')"
  shows "handle_burst E c t_start fs_decim cfo i burst s =
           (None, s\<lparr>decoder_state := d', pktq := pktq s @ [PyNone]\<rparr>)"
  using handle_burst_unfold [OF assms(1) assms(2) assms(3) refl]
  by (simp add: mac_filtered_def)

text \<open>
  C1 (fails on the code). A rejected burst is claimed to leave the queue untouched.
  \<open>process_burst\<close> does return \<open>None\<close> without raising for each rejection
  (\<open>process_burst_no_sync\<close>, \<open>process_burst_below_floor\<close>, \<open>process_burst_synced\<close>),
  but the worker loop does not test its result: it hands \<open>None\<close> to the decoder, and
  when the decoder raises on it the loop puts \<open>None\<close> itself on the queue
  (\<open>handle_burst_rejected\<close>). Here for a burst without a sync word, with the loop-back
  decoder: \<open>process_burst\<close> returns \<open>None\<close>, and the queue, empty before, holds \<open>None\<close>,
  the value that \<open>cancel_recv\<close> uses as the end-of-stream sentinel.
\<close>

theorem rejected_burst_puts_None:
  "process_burst loopback file_session 37 0 noise_burst 2000000 0 PHY_1M = Inr None
   \<and> handle_burst loopback 37 0 2000000 0 0 noise_burst file_session
       = (None, file_session\<lparr>pktq := [PyNone]\<rparr>)"
proof -
  have d: "decode loopback None (decoder_state file_session) = (Inl AttributeError, 0)"
    by (simp add: decode_loopback loopback_decode_def file_session_def)
  have "handle_burst loopback 37 0 2000000 0 0 noise_burst file_session
          = (None, file_session\<lparr>decoder_state := 0, pktq := pktq file_session @ [PyNone]\<rparr>)"
    by (rule handle_burst_rejected [OF _ _ d]) (simp_all add: process_noise)
  then have "handle_burst loopback 37 0 2000000 0 0 noise_burst file_session
          = (None, file_session\<lparr>pktq := [PyNone]\<rparr>)"
    by (simp add: file_session_def)
  with process_noise show ?thesis
    by (rule conjI)
qed

text \<open>
  C8. MAC filtering in the worker loop, for a burst whose packet the decoder turned
  into the message \<open>m\<close>: with a filter of 6 bytes set, an advertisement whose
  advertiser address is not \<open>None\<close> is put on the queue when the address equals the
  filter and dropped when it differs; an advertisement whose address is \<open>None\<close>, any
  message when no filter is set, and any message that is not an advertisement are put
  on the queue.
\<close>

theorem mac_filtering:
  assumes "fs_decim \<noteq> 0"
    and "process_burst E s c (t_start + of_int i / fs_decim) burst fs_decim cfo PHY_1M = Inr pkt"
    and "decode E pkt (decoder_state s) = (Inr m, d')"
  shows "(\<forall>q a flt. m = AdvertMessage q (Some a) \<and> mac s = Some flt \<and> length flt = 6 \<longrightarrow>
            handle_burst E c t_start fs_decim cfo i burst s
              = (None, if a = flt then s\<lparr>decoder_state := d', pktq := pktq s @ [m]\<rparr>
                       else s\<lparr>decoder_state := d'\<rparr>))
       \<and> ((\<exists>q. m = AdvertMessage q None) \<or> mac s = None \<or> (\<forall>q a. m \<noteq> AdvertMessage q a) \<longrightarrow>
            handle_burst E c t_start fs_decim cfo i burst s
              = (None, s\<lparr>decoder_state := d', pktq := pktq s @ [m]\<rparr>))"
proof -
  note hb = handle_burst_unfold [OF assms(1) assms(2) assms(3) refl]
  have a: "handle_burst E c t_start fs_decim cfo i burst s
              = (None, if a = flt then s\<lparr>decoder_state := d', pktq := pktq s @ [m]\<rparr>
                       else s\<lparr>decoder_state := d'\<rparr>)"
    if "m = AdvertMessage q (Some a)" "mac s = Some flt" "length flt = 6" for q a flt
    unfolding hb using that by (auto simp: mac_filtered_def truthy_def)
  have b: "handle_burst E c t_start fs_decim cfo i burst s
              = (None, s\<lparr>decoder_state := d', pktq := pktq s @ [m]\<rparr>)"
    if "(\<exists>q. m = AdvertMessage q None) \<or> mac s = None \<or> (\<forall>q a. m \<noteq> AdvertMessage q a)"
    unfolding hb using that
    by (auto simp: mac_filtered_def truthy_def split: message.splits option.splits)
  from a b show ?thesis by blast
qed

lemma process_adv_any_mac:
  "process_burst loopback (file_session\<lparr>mac := flt\<rparr>) 37 0 adv_burst 2000000 0 PHY_1M
     = Inr (Some adv_packet)"
  unfolding process_burst_def
  by (simp add: loopback_eval calc_rssi_loopback adv_packet_def symbol_rate_1M long_enough_def)

lemma decode_adv:
  "decode loopback (Some adv_packet) 0 = (Inr (AdvertMessage adv_packet (Some [1, 2, 3, 4, 5, 6])), 1)"
  by (simp add: decode_loopback loopback_decode_def adv_packet_def adv_body_def)

theorem mac_filtering_witness:
  "handle_burst loopback 37 0 2000000 0 0 adv_burst (file_session\<lparr>mac := Some [1, 2, 3, 4, 5, 6]\<rparr>)
     = (None, file_session\<lparr>mac := Some [1, 2, 3, 4, 5, 6], decoder_state := 1,
                pktq := [AdvertMessage adv_packet (Some [1, 2, 3, 4, 5, 6])]\<rparr>)
   \<and> handle_burst loopback 37 0 2000000 0 0 adv_burst (file_session\<lparr>mac := Some [1, 2, 3, 4, 5, 7]\<rparr>)
     = (None, file_session\<lparr>mac := Some [1, 2, 3, 4, 5, 7], decoder_state := 1\<rparr>)
   \<and> handle_burst loopback 37 0 2000000 0 0 adv_burst file_session
     = (None, file_session\<lparr>decoder_state := 1,
                pktq := [AdvertMessage adv_packet (Some [1, 2, 3, 4, 5, 6])]\<rparr>)"
proof -
  have d: "decode loopback (Some adv_packet) (decoder_state (file_session\<lparr>mac := flt\<rparr>))
             = (Inr (AdvertMessage adv_packet (Some [1, 2, 3, 4, 5, 6])), 1)" for flt
    using decode_adv by (simp add: file_session_def)
  have p: "process_burst loopback (file_session\<lparr>mac := flt\<rparr>) 37 (0 + of_int 0 / 2000000) adv_burst
             2000000 0 PHY_1M = Inr (Some adv_packet)" for flt
    using process_adv_any_mac [of flt] by simp
  have z: "(2000000 :: rat) \<noteq> 0" by simp
  have a: "handle_burst loopback 37 0 2000000 0 0 adv_burst (file_session\<lparr>mac := Some [1, 2, 3, 4, 5, 6]\<rparr>)
     = (None, file_session\<lparr>mac := Some [1, 2, 3, 4, 5, 6], decoder_state := 1,
                pktq := [AdvertMessage adv_packet (Some [1, 2, 3, 4, 5, 6])]\<rparr>)"
    using mac_filtering [OF z p d, of "Some [1, 2, 3, 4, 5, 6]"]
    by (simp add: file_session_def)
  have b: "handle_burst loopback 37 0 2000000 0 0 adv_burst (file_session\<lparr>mac := Some [1, 2, 3, 4, 5, 7]\<rparr>)
     = (None, file_session\<lparr>mac := Some [1, 2, 3, 4, 5, 7], decoder_state := 1\<rparr>)"
    using mac_filtering [OF z p d, of "Some [1, 2, 3, 4, 5, 7]"]
    by (simp add: file_session_def)
  have c: "handle_burst loopback 37 0 2000000 0 0 adv_burst file_session
     = (None, file_session\<lparr>decoder_state := 1,
                pktq := [AdvertMessage adv_packet (Some [1, 2, 3, 4, 5, 6])]\<rparr>)"
    using mac_filtering [OF z p d, of None]
    by (simp add: file_session_def)
  from a b c show ?thesis by blast
qed

text \<open>
  C9. When the decoder raises on a packet that the burst pipeline produced, the worker
  loop puts that packet, unchanged and undecoded, on the queue, and goes on with the
  next burst of the channel: the loop over the bursts from this burst on is the loop
  over the remaining bursts, started in the session that holds the forwarded packet.
\<close>

theorem decode_failure_forwards_raw:
  assumes "fs_decim \<noteq> 0"
    and "process_burst E s c (t_start + of_int i / fs_decim) burst fs_decim cfo PHY_1M = Inr (Some q)"
    and "decode E (Some q) (decoder_state s) = (Inl e, d')"
  shows "handle_burst E c t_start fs_decim cfo i burst s
           = (None, s\<lparr>decoder_state := d', pktq := pktq s @ [Raw q]\<rparr>)
       \<and> handle_bursts E c t_start fs_decim cfo ((i, burst) # rest) s
           = handle_bursts E c t_start fs_decim cfo rest
               (s\<lparr>decoder_state := d', pktq := pktq s @ [Raw q]\<rparr>)"
proof -
  have hb: "handle_burst E c t_start fs_decim cfo i burst s
           = (None, s\<lparr>decoder_state := d', pktq := pktq s @ [Raw q]\<rparr>)"
    using handle_burst_unfold [OF assms(1) assms(2) assms(3) refl]
    by (simp add: mac_filtered_def)
  then show ?thesis by simp
qed


lemma process_short:
  "process_burst loopback file_session 37 0 short_body_burst 2000000 0 PHY_1M = Inr (Some short_packet)"
  unfolding process_burst_def
  by (simp add: loopback_eval calc_rssi_loopback short_packet_def symbol_rate_1M long_enough_def)

lemma handle_adv:
  "handle_burst loopback 37 0 2000000 0 0 adv_burst (file_session\<lparr>decoder_state := d, pktq := qs\<rparr>)
     = (None, file_session\<lparr>decoder_state := Suc d,
                pktq := qs @ [AdvertMessage adv_packet (Some [1, 2, 3, 4, 5, 6])]\<rparr>)"
proof -
  have p: "process_burst loopback (file_session\<lparr>decoder_state := d, pktq := qs\<rparr>) 37
             (0 + of_int 0 / 2000000) adv_burst 2000000 0 PHY_1M = Inr (Some adv_packet)"
    unfolding process_burst_def
    by (simp add: loopback_eval calc_rssi_loopback adv_packet_def symbol_rate_1M long_enough_def)
  have e: "decode loopback (Some adv_packet) (decoder_state (file_session\<lparr>decoder_state := d, pktq := qs\<rparr>))
             = (Inr (AdvertMessage adv_packet (Some [1, 2, 3, 4, 5, 6])), Suc d)"
    by (simp add: decode_loopback loopback_decode_def adv_packet_def adv_body_def)
  show ?thesis
    using handle_burst_unfold [OF _ p e refl]
    by (simp add: mac_filtered_def truthy_def file_session_def)
qed

theorem decode_failure_forwards_raw_witness:
  "handle_bursts loopback 37 0 2000000 0 [(0, short_body_burst), (0, adv_burst)] file_session
     = (None, file_session\<lparr>decoder_state := 2,
                pktq := [Raw short_packet, AdvertMessage adv_packet (Some [1, 2, 3, 4, 5, 6])]\<rparr>)"
proof -
  have z: "(2000000 :: rat) \<noteq> 0" by simp
  have p: "process_burst loopback file_session 37 (0 + of_int 0 / 2000000) short_body_burst
             2000000 0 PHY_1M = Inr (Some short_packet)"
    using process_short by simp
  have d: "decode loopback (Some short_packet) (decoder_state file_session) = (Inl DecodeError, 1)"
    by (simp add: decode_loopback loopback_decode_def short_packet_def file_session_def)
  have "handle_bursts loopback 37 0 2000000 0 ((0, short_body_burst) # [(0, adv_burst)]) file_session
          = handle_bursts loopback 37 0 2000000 0 [(0, adv_burst)]
              (file_session\<lparr>decoder_state := 1, pktq := pktq file_session @ [Raw short_packet]\<rparr>)"
    using decode_failure_forwards_raw [OF z p d] by blast
  also have "pktq file_session = []" by (simp add: file_session_def)
  finally show ?thesis
    by (simp add: handle_adv)
qed


lemma process_burst_phy_tag:
  "process_burst E (s\<lparr>phy := p'\<rparr>) c t burst f cfo p
     = (case process_burst E s c t burst f cfo p of
          Inr (Some q) \<Rightarrow> Inr (Some (q\<lparr>pkt_phy := p'\<rparr>))
        | r \<Rightarrow> r)"
proof -
  obtain fr off syms where d: "demodulate E burst f cfo p = (fr, off, syms)"
    by (cases "demodulate E burst f cfo p") auto
  have b: "burst_rssi E (s\<lparr>phy := p'\<rparr>) burst = burst_rssi E s burst"
    by (simp add: burst_rssi_def)
  show ?thesis
    unfolding process_burst_def d prod.case b
    by (cases "find_sync32 E syms (aa s)") (simp_all add: Let_def)
qed

lemma process_burst_1M_rate:
  "process_burst (E\<lparr>fsk_decode := \<lambda>b r sr. fsk_decode E b r 1000000\<rparr>) s c t burst f cfo PHY_1M
     = process_burst E s c t burst f cfo PHY_1M"
proof -
  let ?E = "E\<lparr>fsk_decode := \<lambda>b r sr. fsk_decode E b r 1000000\<rparr>"
  have d: "demodulate ?E burst f cfo PHY_1M = demodulate E burst f cfo PHY_1M"
    by (simp add: demodulate_def symbol_rate_1M)
  have b: "burst_rssi ?E s burst = burst_rssi E s burst"
    by (simp add: burst_rssi_def)
  have w: "dewhitened ?E = dewhitened E"
    by (simp add: dewhitened_def fun_eq_iff)
  have y: "find_sync32 ?E = find_sync32 E" and r: "crc_ble_reverse ?E = crc_ble_reverse E"
    by simp_all
  show ?thesis
    unfolding process_burst_def d b w y r ..
qed

text \<open>
  C10. The worker loop calls \<open>process_burst\<close> without a PHY argument, so with the default
  \<open>PHY_1M\<close>: the demodulator is always run at 1 Msym/s (the loop behaves the same when
  \<open>fsk_decode\<close> is replaced by itself at the fixed rate 1000000), the PHY of the session
  changes nothing in the outcome but the tag of the packet, and that tag is the PHY of
  the session.
\<close>

theorem worker_ignores_session_phy:
  "handle_burst E c t_start fs_decim cfo i burst s
     = handle_burst (E\<lparr>fsk_decode := \<lambda>b r sr. fsk_decode E b r 1000000\<rparr>) c t_start fs_decim cfo
         i burst s
   \<and> process_burst E (s\<lparr>phy := p'\<rparr>) c t burst f cfo PHY_1M
       = (case process_burst E s c t burst f cfo PHY_1M of
            Inr (Some q) \<Rightarrow> Inr (Some (q\<lparr>pkt_phy := p'\<rparr>))
          | r \<Rightarrow> r)
   \<and> (\<forall>q. process_burst E s c t burst f cfo PHY_1M = Inr (Some q) \<longrightarrow> pkt_phy q = phy s)"
proof (intro conjI allI impI)
  show "handle_burst E c t_start fs_decim cfo i burst s
     = handle_burst (E\<lparr>fsk_decode := \<lambda>b r sr. fsk_decode E b r 1000000\<rparr>) c t_start fs_decim cfo
         i burst s"
  proof -
    have e: "decode (E\<lparr>fsk_decode := \<lambda>b r sr. fsk_decode E b r 1000000\<rparr>) = decode E"
      by simp
    show ?thesis
      unfolding handle_burst_def process_burst_1M_rate e ..
  qed
next
  show "process_burst E (s\<lparr>phy := p'\<rparr>) c t burst f cfo PHY_1M
       = (case process_burst E s c t burst f cfo PHY_1M of
            Inr (Some q) \<Rightarrow> Inr (Some (q\<lparr>pkt_phy := p'\<rparr>))
          | r \<Rightarrow> r)"
    by (rule process_burst_phy_tag)
next
  fix q assume a: "process_burst E s c t burst f cfo PHY_1M = Inr (Some q)"
  obtain fr off syms where d: "demodulate E burst f cfo PHY_1M = (fr, off, syms)"
    by (cases "demodulate E burst f cfo PHY_1M") auto
  show "pkt_phy q = phy s"
    using a unfolding process_burst_def d prod.case
    by (cases "find_sync32 E syms (aa s)") (auto simp: Let_def split: if_splits)
qed

text \<open>
  The PHY argument itself matters: the loop-back demodulator finds nothing at 2 Msym/s.
\<close>

lemma process_adv_at_2M:
  "process_burst loopback s 37 0 adv_burst 2000000 0 PHY_2M = Inr None"
  unfolding process_burst_def
  by (simp add: demodulate_def loopback_def symbol_rate_def PHY_2M_def aa_bytes_def)

theorem worker_ignores_session_phy_witness:
  "handle_burst loopback 37 0 2000000 0 0 adv_burst (file_session\<lparr>phy := PHY_2M\<rparr>)
     = (None, file_session\<lparr>phy := PHY_2M, decoder_state := 1,
                pktq := [AdvertMessage (adv_packet\<lparr>pkt_phy := PHY_2M\<rparr>) (Some [1, 2, 3, 4, 5, 6])]\<rparr>)"
proof -
  note w = worker_ignores_session_phy [where E = loopback and s = file_session and p' = PHY_2M
      and c = 37 and t = "0 + of_int 0 / 2000000" and burst = adv_burst and f = 2000000 and cfo = 0]
  have p: "process_burst loopback (file_session\<lparr>phy := PHY_2M\<rparr>) 37 (0 + of_int 0 / 2000000) adv_burst
             2000000 0 PHY_1M = Inr (Some (adv_packet\<lparr>pkt_phy := PHY_2M\<rparr>))"
    using w process_adv by simp
  have e: "decode loopback (Some (adv_packet\<lparr>pkt_phy := PHY_2M\<rparr>))
             (decoder_state (file_session\<lparr>phy := PHY_2M\<rparr>))
             = (Inr (AdvertMessage (adv_packet\<lparr>pkt_phy := PHY_2M\<rparr>) (Some [1, 2, 3, 4, 5, 6])), 1)"
    by (simp add: decode_loopback loopback_decode_def adv_packet_def adv_body_def file_session_def)
  show ?thesis
    using handle_burst_unfold [OF _ p e refl]
    by (simp add: mac_filtered_def truthy_def file_session_def)
qed

section \<open>Properties of the channel plan\<close>

lemma py_set_in_range:
  "0 \<le> i \<Longrightarrow> i < int (length xs) \<Longrightarrow> py_set xs i v = Inr (xs[nat i := v])"
  by (simp add: py_set_def)

lemma plan_loop_result:
  assumes "length channels = nat n" and "length cfos = nat n"
    and "\<forall>r \<in> set rs. 0 \<le> chan_idx E n r \<and> chan_idx E n r < n"
    and "distinct (map (chan_idx E n) rs)"
  shows "\<exists>channels' cfos'.
           plan_loop E n ch ce rs (channels, cfos) = Inr (channels', cfos')
         \<and> length channels' = nat n \<and> length cfos' = nat n
         \<and> (\<forall>r \<in> set rs. 0 \<le> ble_to_rf_chan E ch + r \<and> ble_to_rf_chan E ch + r < 40 \<longrightarrow>
                channels' ! nat (chan_idx E n r) = Some (rf_to_ble_chan E (ble_to_rf_chan E ch + r))
              \<and> cfos' ! nat (chan_idx E n r) = - of_int r * ce)
         \<and> (\<forall>j < nat n.
                (\<forall>r \<in> set rs. 0 \<le> ble_to_rf_chan E ch + r \<and> ble_to_rf_chan E ch + r < 40 \<longrightarrow>
                   nat (chan_idx E n r) \<noteq> j) \<longrightarrow>
                channels' ! j = channels ! j \<and> cfos' ! j = cfos ! j)"
  using assms
proof (induction rs arbitrary: channels cfos)
  case Nil
  then show ?case by simp
next
  case (Cons r rs)
  let ?i = "chan_idx E n r"
  let ?a = "ble_to_rf_chan E ch + r"
  have i: "0 \<le> ?i" "?i < n" using Cons.prems(3) by simp_all
  have rest: "\<forall>r \<in> set rs. 0 \<le> chan_idx E n r \<and> chan_idx E n r < n"
    "distinct (map (chan_idx E n) rs)"
    using Cons.prems(3,4) by simp_all
  have fresh: "\<forall>r' \<in> set rs. nat (chan_idx E n r') \<noteq> nat ?i"
  proof
    fix r' assume m: "r' \<in> set rs"
    then have "chan_idx E n r' \<noteq> ?i"
      using Cons.prems(4) by (metis distinct.simps(2) image_eqI list.simps(9) set_map)
    moreover have "0 \<le> chan_idx E n r'" using rest(1) m by simp
    ultimately show "nat (chan_idx E n r') \<noteq> nat ?i"
      using i by simp
  qed
  show ?case
  proof (cases "0 \<le> ?a \<and> ?a < 40")
    case False
    from Cons.IH [OF Cons.prems(1,2) rest]
    obtain channels' cfos' where
      run: "plan_loop E n ch ce rs (channels, cfos) = Inr (channels', cfos')"
      and len: "length channels' = nat n" "length cfos' = nat n"
      and hit: "\<forall>r \<in> set rs. 0 \<le> ble_to_rf_chan E ch + r \<and> ble_to_rf_chan E ch + r < 40 \<longrightarrow>
                channels' ! nat (chan_idx E n r) = Some (rf_to_ble_chan E (ble_to_rf_chan E ch + r))
              \<and> cfos' ! nat (chan_idx E n r) = - of_int r * ce"
      and miss: "\<forall>j < nat n.
                (\<forall>r \<in> set rs. 0 \<le> ble_to_rf_chan E ch + r \<and> ble_to_rf_chan E ch + r < 40 \<longrightarrow>
                   nat (chan_idx E n r) \<noteq> j) \<longrightarrow>
                channels' ! j = channels ! j \<and> cfos' ! j = cfos ! j"
      by blast
    have "plan_loop E n ch ce (r # rs) (channels, cfos) = Inr (channels', cfos')"
      using False run by (auto simp: Let_def)
    with len hit miss False show ?thesis by auto
  next
    case True
    let ?c1 = "channels[nat ?i := Some (rf_to_ble_chan E ?a)]"
    let ?f1 = "cfos[nat ?i := - of_int r * ce]"
    have l1: "length ?c1 = nat n" "length ?f1 = nat n"
      using Cons.prems(1,2) by simp_all
    from Cons.IH [OF l1 rest]
    obtain channels' cfos' where
      run: "plan_loop E n ch ce rs (?c1, ?f1) = Inr (channels', cfos')"
      and len: "length channels' = nat n" "length cfos' = nat n"
      and hit: "\<forall>r \<in> set rs. 0 \<le> ble_to_rf_chan E ch + r \<and> ble_to_rf_chan E ch + r < 40 \<longrightarrow>
                channels' ! nat (chan_idx E n r) = Some (rf_to_ble_chan E (ble_to_rf_chan E ch + r))
              \<and> cfos' ! nat (chan_idx E n r) = - of_int r * ce"
      and miss: "\<forall>j < nat n.
                (\<forall>r \<in> set rs. 0 \<le> ble_to_rf_chan E ch + r \<and> ble_to_rf_chan E ch + r < 40 \<longrightarrow>
                   nat (chan_idx E n r) \<noteq> j) \<longrightarrow>
                channels' ! j = ?c1 ! j \<and> cfos' ! j = ?f1 ! j"
      by blast
    have inb: "nat ?i < nat n" using i by simp
    have s1: "py_set channels ?i (Some (rf_to_ble_chan E ?a)) = Inr ?c1"
      using i Cons.prems(1) by (simp add: py_set_in_range)
    have s2: "py_set cfos ?i (- of_int r * ce) = Inr ?f1"
      using i Cons.prems(2) by (simp add: py_set_in_range)
    have step: "plan_loop E n ch ce (r # rs) (channels, cfos) = Inr (channels', cfos')"
      using True run s1 s2 by (simp add: Let_def)
    have here: "channels' ! nat ?i = Some (rf_to_ble_chan E ?a) \<and> cfos' ! nat ?i = - of_int r * ce"
      using miss inb fresh Cons.prems(1,2) by simp
    have miss': "channels' ! j = channels ! j \<and> cfos' ! j = cfos ! j"
      if "j < nat n" and "\<forall>r' \<in> set (r # rs).
            0 \<le> ble_to_rf_chan E ch + r' \<and> ble_to_rf_chan E ch + r' < 40 \<longrightarrow>
              nat (chan_idx E n r') \<noteq> j" for j
    proof -
      have "nat ?i \<noteq> j" using that(2) True by simp
      moreover have "channels' ! j = ?c1 ! j \<and> cfos' ! j = ?f1 ! j"
        using miss that by simp
      ultimately show ?thesis by simp
    qed
    from step len hit here miss' show ?thesis by auto
  qed
qed

lemma num_channels_round:
  assumes "0 \<le> f"
  shows "num_channels f = round (f / 2000000)"
proof -
  have "\<not> f / 2000000 + 1 / 2 < 0" using assms by simp
  then show ?thesis
    by (simp add: num_channels_def py_int_def round_def)
qed

lemma num_channels_pos:
  assumes "1000000 \<le> f"
  shows "1 \<le> num_channels f"
proof -
  have "1 \<le> f / 2000000 + 1 / 2" using assms by simp
  then have "1 \<le> \<lfloor>f / 2000000 + 1 / 2\<rfloor>" by (simp add: le_floor_iff)
  moreover have "\<not> f / 2000000 + 1 / 2 < 0" using assms by simp
  ultimately show ?thesis by (simp add: num_channels_def py_int_def)
qed

lemma rf_to_ble_std_inj: "inj_on rf_to_ble_std {0 ..< 40}"
  by (auto simp: inj_on_def rf_to_ble_std_def split: if_splits)

text \<open>
  C5. The channel plan of the wideband mode, for a sample rate of at least 1 MHz. The
  number of channels \<open>N\<close> is \<open>fs / 2 MHz\<close> rounded to the nearest integer, the
  error per channel is \<open>fs / N - 2 MHz\<close>. The channelizer is not under src: its
  \<open>chan_idx\<close> is taken to give, for the offsets from \<open>-(N-1) div 2\<close> to \<open>(N-1) div 2\<close>,
  distinct positions of the list of \<open>N\<close> outputs, and \<open>rf_to_ble_chan\<close> to be one-to-one
  on the RF indices 0 to 39. Then the plan is computed without an exception, and for
  every such offset \<open>r\<close> the output index of \<open>r\<close> holds the BLE channel of the RF index
  \<open>ble_to_rf_chan chan + r\<close> with the correction \<open>- r * chan_err\<close> when that RF index is
  in \<open>[0, 40)\<close>, and is unused otherwise; no BLE channel is at two output indices.
\<close>

theorem wideband_channel_plan:
  assumes "1000000 \<le> f"
    and "N = num_channels f"
    and "\<forall>r \<in> {- ((N - 1) div 2) .. (N - 1) div 2}. 0 \<le> chan_idx E N r \<and> chan_idx E N r < N"
    and "inj_on (chan_idx E N) {- ((N - 1) div 2) .. (N - 1) div 2}"
    and "inj_on (rf_to_ble_chan E) {0 ..< 40}"
  shows "N = round (f / 2000000)
       \<and> (\<exists>channels cfos.
             wideband_plan E f ch = Inr (f / of_int N, channels, cfos)
           \<and> length channels = nat N \<and> length cfos = nat N
           \<and> (\<forall>r \<in> {- ((N - 1) div 2) .. (N - 1) div 2}.
                 if 0 \<le> ble_to_rf_chan E ch + r \<and> ble_to_rf_chan E ch + r < 40
                 then channels ! nat (chan_idx E N r)
                        = Some (rf_to_ble_chan E (ble_to_rf_chan E ch + r))
                    \<and> cfos ! nat (chan_idx E N r) = - of_int r * (f / of_int N - 2000000)
                 else channels ! nat (chan_idx E N r) = None)
           \<and> (\<forall>i < nat N. \<forall>j < nat N. \<forall>c.
                 channels ! i = Some c \<and> channels ! j = Some c \<longrightarrow> i = j))"
proof -
  let ?cm = "(N - 1) div 2"
  let ?rs = "[- ?cm .. ?cm]"
  let ?ok = "\<lambda>r. 0 \<le> ble_to_rf_chan E ch + r \<and> ble_to_rf_chan E ch + r < 40"
  have pos: "1 \<le> N" using assms(1,2) by (simp add: num_channels_pos)
  have rnd: "N = round (f / 2000000)"
    using assms(1,2) by (simp add: num_channels_round)
  have idx: "\<forall>r \<in> set ?rs. 0 \<le> chan_idx E N r \<and> chan_idx E N r < N"
    using assms(3) by simp
  have dist: "distinct (map (chan_idx E N) ?rs)"
    using assms(4) by (simp add: distinct_map)
  from plan_loop_result [of "replicate (nat N) None" N "replicate (nat N) 0" ?rs E ch
      "f / of_int N - 2000000", OF _ _ idx dist]
  obtain channels cfos where
    run: "plan_loop E N ch (f / of_int N - 2000000) ?rs
            (replicate (nat N) None, replicate (nat N) 0) = Inr (channels, cfos)"
    and len: "length channels = nat N" "length cfos = nat N"
    and hit: "\<forall>r \<in> set ?rs. ?ok r \<longrightarrow>
                channels ! nat (chan_idx E N r) = Some (rf_to_ble_chan E (ble_to_rf_chan E ch + r))
              \<and> cfos ! nat (chan_idx E N r) = - of_int r * (f / of_int N - 2000000)"
    and miss: "\<forall>j < nat N. (\<forall>r \<in> set ?rs. ?ok r \<longrightarrow> nat (chan_idx E N r) \<noteq> j) \<longrightarrow>
                channels ! j = replicate (nat N) None ! j \<and> cfos ! j = replicate (nat N) (0::rat) ! j"
    by auto
  have plan: "wideband_plan E f ch = Inr (f / of_int N, channels, cfos)"
    using pos run assms(2) by (simp add: wideband_plan_def chan_max_def chan_err_def)
  have unused: "channels ! nat (chan_idx E N r) = None"
    if r: "r \<in> set ?rs" and no: "\<not> ?ok r" for r
  proof -
    have "0 \<le> chan_idx E N r \<and> chan_idx E N r < N" using idx r by blast
    then have b: "nat (chan_idx E N r) < nat N" by linarith
    have "nat (chan_idx E N r') \<noteq> nat (chan_idx E N r)" if "r' \<in> set ?rs" "?ok r'" for r'
    proof
      assume e: "nat (chan_idx E N r') = nat (chan_idx E N r)"
      have "0 \<le> chan_idx E N r" "0 \<le> chan_idx E N r'"
        using idx r that(1) by blast+
      with e have "chan_idx E N r' = chan_idx E N r" by linarith
      then have "r' = r"
        using assms(4) r that(1) by (simp add: inj_on_def)
      with no that(2) show False by simp
    qed
    with miss b show ?thesis by auto
  qed
  have source: "\<exists>r \<in> set ?rs. ?ok r \<and> nat (chan_idx E N r) = i
                  \<and> c = rf_to_ble_chan E (ble_to_rf_chan E ch + r)"
    if i: "i < nat N" and c: "channels ! i = Some c" for i c
  proof (rule ccontr)
    assume n: "\<not> ?thesis"
    have "\<forall>r \<in> set ?rs. ?ok r \<longrightarrow> nat (chan_idx E N r) \<noteq> i"
    proof (intro ballI impI notI)
      fix r assume r: "r \<in> set ?rs" "?ok r" "nat (chan_idx E N r) = i"
      with hit have "channels ! i = Some (rf_to_ble_chan E (ble_to_rf_chan E ch + r))" by auto
      with c r n show False by auto
    qed
    with miss i have "channels ! i = replicate (nat N) None ! i" by blast
    with i c show False by simp
  qed
  have one: "i = j"
    if "i < nat N" "j < nat N" "channels ! i = Some c" "channels ! j = Some c" for i j c
  proof -
    from source [OF that(1,3)] obtain r where
      r: "r \<in> set ?rs" "?ok r" "nat (chan_idx E N r) = i"
      "c = rf_to_ble_chan E (ble_to_rf_chan E ch + r)" by blast
    from source [OF that(2,4)] obtain r' where
      r': "r' \<in> set ?rs" "?ok r'" "nat (chan_idx E N r') = j"
      "c = rf_to_ble_chan E (ble_to_rf_chan E ch + r')" by blast
    have "ble_to_rf_chan E ch + r \<in> {0 ..< 40}" "ble_to_rf_chan E ch + r' \<in> {0 ..< 40}"
      using r(2) r'(2) by simp_all
    moreover have "rf_to_ble_chan E (ble_to_rf_chan E ch + r)
                     = rf_to_ble_chan E (ble_to_rf_chan E ch + r')"
      using r(4) r'(4) by simp
    ultimately have "ble_to_rf_chan E ch + r = ble_to_rf_chan E ch + r'"
      using assms(5) by (meson inj_onD)
    then have "r = r'" by simp
    with r(3) r'(3) show ?thesis by simp
  qed
  have each: "\<forall>r \<in> {- ?cm .. ?cm}.
                 if ?ok r
                 then channels ! nat (chan_idx E N r)
                        = Some (rf_to_ble_chan E (ble_to_rf_chan E ch + r))
                    \<and> cfos ! nat (chan_idx E N r) = - of_int r * (f / of_int N - 2000000)
                 else channels ! nat (chan_idx E N r) = None"
    using hit unused by auto
  from rnd plan len each one show ?thesis by blast
qed

lemma num_channels_example: "num_channels 8200000 = 4"
  by (simp add: num_channels_def py_int_def floor_eq_iff)

lemma upto_example: "[- 1 .. 1 :: int] = [- 1, 0, 1]"
  by code_simp

lemma replicate4: "replicate (nat 4) x = [x, x, x, x]"
  by (simp add: eval_nat_numeral)

lemma plan_loop_example:
  "plan_loop loopback 4 37 50000 [- 1, 0, 1] ([None, None, None, None], [0, 0, 0, 0])
     = Inr ([Some 37, Some 0, None, None], [0, - 50000, 0, 0])"
  by (simp add: py_set_def loopback_def ble_to_rf_std_def rf_to_ble_std_def)

lemma chan_max_example: "chan_max 8200000 = 1"
  by (simp add: chan_max_def num_channels_example)

lemma chan_err_example: "chan_err 8200000 = 50000"
  by (simp add: chan_err_def num_channels_example)

lemma wideband_plan_example:
  "wideband_plan loopback 8200000 37
     = Inr (2050000, [Some 37, Some 0, None, None], [0, - 50000, 0, 0])"
  unfolding wideband_plan_def num_channels_example chan_max_example chan_err_example
    upto_example replicate4 plan_loop_example
  by simp

lemma half_example: "(4 - 1) div 2 = (1 :: int)"
  by simp

lemma chan_idx_example_range:
  "\<forall>r \<in> {- ((4 - 1) div 2) .. (4 - 1) div 2}.
      0 \<le> chan_idx loopback 4 r \<and> chan_idx loopback 4 r < 4"
  by (simp add: loopback_def)

lemma chan_idx_example_inj:
  "inj_on (chan_idx loopback 4) {- ((4 - 1) div 2) .. (4 - 1) div 2}"
proof (rule inj_onI)
  fix x y :: int
  assume "x \<in> {- ((4 - 1) div 2) .. (4 - 1) div 2}" "y \<in> {- ((4 - 1) div 2) .. (4 - 1) div 2}"
    and e: "chan_idx loopback 4 x = chan_idx loopback 4 y"
  then have b: "- 1 \<le> x" "x \<le> 1" "- 1 \<le> y" "y \<le> 1" by simp_all
  from e have "x mod 4 = y mod 4" by (simp add: loopback_def)
  with b show "x = y" by presburger
qed

theorem wideband_channel_plan_witness:
  "\<exists>channels cfos.
     wideband_plan loopback 8200000 37 = Inr (2050000, channels, cfos)
   \<and> length channels = 4
   \<and> channels ! 0 = Some 37 \<and> channels ! 1 = Some 0 \<and> channels ! 3 = None
   \<and> cfos ! 1 = - 50000"
proof -
  have rf: "inj_on (rf_to_ble_chan loopback) {0 ..< 40}"
    using rf_to_ble_std_inj by (simp add: loopback_def)
  from wideband_channel_plan [where E = loopback and f = 8200000 and N = 4 and ch = 37,
      OF _ num_channels_example [symmetric] chan_idx_example_range chan_idx_example_inj rf]
  obtain channels cfos where
    plan: "wideband_plan loopback 8200000 37 = Inr (8200000 / of_int 4, channels, cfos)"
    and len: "length channels = nat 4"
    and each: "\<forall>r \<in> {- ((4 - 1) div 2) .. (4 - 1) div 2}.
                 if 0 \<le> ble_to_rf_chan loopback 37 + r \<and> ble_to_rf_chan loopback 37 + r < 40
                 then channels ! nat (chan_idx loopback 4 r)
                        = Some (rf_to_ble_chan loopback (ble_to_rf_chan loopback 37 + r))
                    \<and> cfos ! nat (chan_idx loopback 4 r) = - of_int r * (8200000 / of_int 4 - 2000000)
                 else channels ! nat (chan_idx loopback 4 r) = None"
    by auto
  have sel: "ble_to_rf_chan loopback 37 = 0" "rf_to_ble_chan loopback 0 = 37"
    "rf_to_ble_chan loopback 1 = 0" "chan_idx loopback 4 0 = 0" "chan_idx loopback 4 1 = 1"
    "chan_idx loopback 4 (- 1) = 3"
    by (simp_all add: loopback_def ble_to_rf_std_def rf_to_ble_std_def)
  have m: "(0::int) \<in> {- ((4 - 1) div 2) .. (4 - 1) div 2}"
    "(1::int) \<in> {- ((4 - 1) div 2) .. (4 - 1) div 2}"
    "(- 1::int) \<in> {- ((4 - 1) div 2) .. (4 - 1) div 2}"
    by simp_all
  have c0: "channels ! 0 = Some 37"
    using bspec [OF each m(1)] by (simp add: sel)
  have c1: "channels ! 1 = Some 0 \<and> cfos ! 1 = - 50000"
    using bspec [OF each m(2)] by (simp add: sel)
  have c3: "channels ! 3 = None"
    using bspec [OF each m(3)] by (simp add: sel)
  from plan len c0 c1 c3 show ?thesis by simp
qed

section \<open>Properties of the worker lifecycle\<close>

lemma handle_burst_changes:
  "\<exists>d out. snd (handle_burst E c t_start fs_decim cfo i burst s)
             = s\<lparr>decoder_state := d, pktq := pktq s @ out\<rparr>"
proof (cases "fs_decim = 0")
  case True
  then have "snd (handle_burst E c t_start fs_decim cfo i burst s)
               = s\<lparr>decoder_state := decoder_state s, pktq := pktq s @ []\<rparr>"
    by (simp add: handle_burst_def)
  then show ?thesis by blast
next
  case False
  show ?thesis
  proof (cases "process_burst E s c (t_start + of_int i / fs_decim) burst fs_decim cfo PHY_1M")
    case (Inl e)
    then have "snd (handle_burst E c t_start fs_decim cfo i burst s)
               = s\<lparr>decoder_state := decoder_state s, pktq := pktq s @ []\<rparr>"
      using False by (simp add: handle_burst_def)
    then show ?thesis by blast
  next
    case (Inr pkt)
    obtain r d' where dec: "decode E pkt (decoder_state s) = (r, d')"
      by (cases "decode E pkt (decoder_state s)") auto
    note hb = handle_burst_unfold [OF False Inr dec refl]
    show ?thesis
    proof (cases "mac_filtered s (case r of Inl e \<Rightarrow> (case pkt of None \<Rightarrow> PyNone | Some q \<Rightarrow> Raw q)
                                  | Inr m \<Rightarrow> m)")
      case True
      with hb have "snd (handle_burst E c t_start fs_decim cfo i burst s)
               = s\<lparr>decoder_state := d', pktq := pktq s @ []\<rparr>"
        by simp
      then show ?thesis by blast
    next
      case False
      with hb have "snd (handle_burst E c t_start fs_decim cfo i burst s)
               = s\<lparr>decoder_state := d',
                    pktq := pktq s @ [case r of Inl e \<Rightarrow> (case pkt of None \<Rightarrow> PyNone | Some q \<Rightarrow> Raw q)
                                      | Inr m \<Rightarrow> m]\<rparr>"
        by simp
      then show ?thesis by blast
    qed
  qed
qed

lemma handle_bursts_changes:
  "\<exists>d out. snd (handle_bursts E c t_start fs_decim cfo bursts s)
             = s\<lparr>decoder_state := d, pktq := pktq s @ out\<rparr>"
proof (induction bursts arbitrary: s)
  case Nil
  have "snd (handle_bursts E c t_start fs_decim cfo [] s)
          = s\<lparr>decoder_state := decoder_state s, pktq := pktq s @ []\<rparr>"
    by simp
  then show ?case by blast
next
  case (Cons b bursts)
  obtain i burst where b: "b = (i, burst)" by (cases b)
  obtain e s1 where h: "handle_burst E c t_start fs_decim cfo i burst s = (e, s1)"
    by (cases "handle_burst E c t_start fs_decim cfo i burst s")
  from handle_burst_changes [of E c t_start fs_decim cfo i burst s] h
  obtain d1 out1 where s1: "s1 = s\<lparr>decoder_state := d1, pktq := pktq s @ out1\<rparr>" by auto
  show ?case
  proof (cases e)
    case (Some x)
    then have "snd (handle_bursts E c t_start fs_decim cfo (b # bursts) s) = s1"
      using b h by simp
    with s1 show ?thesis by blast
  next
    case None
    then have r: "handle_bursts E c t_start fs_decim cfo (b # bursts) s
                 = handle_bursts E c t_start fs_decim cfo bursts s1"
      using b h by simp
    from Cons.IH [of s1] obtain d2 out2 where
      "snd (handle_bursts E c t_start fs_decim cfo bursts s1)
         = s1\<lparr>decoder_state := d2, pktq := pktq s1 @ out2\<rparr>" by blast
    then have "snd (handle_bursts E c t_start fs_decim cfo (b # bursts) s)
         = s\<lparr>decoder_state := d2, pktq := pktq s @ (out1 @ out2)\<rparr>"
      using r s1 by simp
    then show ?thesis by blast
  qed
qed

lemma handle_channels_changes:
  "\<exists>d out. snd (handle_channels E t_start fs_decim chans s)
             = s\<lparr>decoder_state := d, pktq := pktq s @ out\<rparr>"
proof (induction chans arbitrary: s)
  case Nil
  have "snd (handle_channels E t_start fs_decim [] s)
          = s\<lparr>decoder_state := decoder_state s, pktq := pktq s @ []\<rparr>"
    by simp
  then show ?case by blast
next
  case (Cons x chans)
  obtain c cfo bursts where x: "x = (c, cfo, bursts)" by (cases x)
  show ?case
  proof (cases "c = None \<or> (\<exists>ch. c = Some ch \<and> ch < 37)")
    case True
    then have "handle_channels E t_start fs_decim (x # chans) s
                 = handle_channels E t_start fs_decim chans s"
      using x by auto
    with Cons.IH [of s] show ?thesis by simp
  next
    case False
    then obtain ch where ch: "c = Some ch" "\<not> ch < 37" by auto
    obtain e s1 where h: "handle_bursts E ch t_start fs_decim cfo bursts s = (e, s1)"
      by (cases "handle_bursts E ch t_start fs_decim cfo bursts s")
    from handle_bursts_changes [of E ch t_start fs_decim cfo bursts s] h
    obtain d1 out1 where s1: "s1 = s\<lparr>decoder_state := d1, pktq := pktq s @ out1\<rparr>" by auto
    show ?thesis
    proof (cases e)
      case (Some y)
      then have "snd (handle_channels E t_start fs_decim (x # chans) s) = s1"
        using x ch h by simp
      with s1 show ?thesis by blast
    next
      case None
      then have r: "handle_channels E t_start fs_decim (x # chans) s
                   = handle_channels E t_start fs_decim chans s1"
        using x ch h by simp
      from Cons.IH [of s1] obtain d2 out2 where
        "snd (handle_channels E t_start fs_decim chans s1)
           = s1\<lparr>decoder_state := d2, pktq := pktq s1 @ out2\<rparr>" by blast
      then have "snd (handle_channels E t_start fs_decim (x # chans) s)
           = s\<lparr>decoder_state := d2, pktq := pktq s @ (out1 @ out2)\<rparr>"
        using r s1 by simp
      then show ?thesis by blast
    qed
  qed
qed

lemma worker_finish_changes:
  assumes "\<not> worker_running s"
  shows "\<exists>d fo out. worker_finish E t_start fs_decim in_flight s
             = s\<lparr>file_open := fo, decoder_state := d, pktq := pktq s @ out\<rparr>"
proof -
  have ex: "worker_exit s = s"
    using assms by (simp add: worker_exit_def)
  show ?thesis
  proof (cases in_flight)
    case None
    then have "worker_finish E t_start fs_decim in_flight s
                = s\<lparr>file_open := file_open s, decoder_state := decoder_state s, pktq := pktq s @ []\<rparr>"
      using ex by (simp add: worker_finish_def)
    then show ?thesis by blast
  next
    case (Some cap)
    show ?thesis
    proof (cases "sdr s = None \<and> \<not> file_open s")
      case True
      then have "worker_pass E t_start fs_decim cap s = (Some AttributeError, False, s)"
        by (simp add: worker_pass_def)
      then have "worker_finish E t_start fs_decim in_flight s
                = s\<lparr>file_open := file_open s, decoder_state := decoder_state s, pktq := pktq s @ []\<rparr>"
        using Some by (simp add: worker_finish_def)
      then show ?thesis by blast
    next
      case ok: False
      show ?thesis
      proof (cases cap)
        case Short
        have "worker_pass E t_start fs_decim cap s
                = (None, False, if sdr s \<noteq> None then s else s\<lparr>file_open := False\<rparr>)"
          unfolding worker_pass_def if_not_P [OF ok] Short by simp
        then have wf: "worker_finish E t_start fs_decim in_flight s
                = worker_exit (if sdr s \<noteq> None then s else s\<lparr>file_open := False\<rparr>)"
          using Some by (simp add: worker_finish_def)
        show ?thesis
        proof (cases "sdr s \<noteq> None")
          case True
          with wf ex have "worker_finish E t_start fs_decim in_flight s
                = s\<lparr>file_open := file_open s, decoder_state := decoder_state s, pktq := pktq s @ []\<rparr>"
            by simp
          then show ?thesis by blast
        next
          case False
          have "worker_exit (s\<lparr>file_open := False\<rparr>) = s\<lparr>file_open := False\<rparr>"
            using assms by (simp add: worker_exit_def)
          with wf False have "worker_finish E t_start fs_decim in_flight s
                = s\<lparr>file_open := False, decoder_state := decoder_state s, pktq := pktq s @ []\<rparr>"
            by simp
          then show ?thesis by blast
        qed
      next
        case (Full chans)
        obtain e s1 where h: "handle_channels E t_start fs_decim chans s = (e, s1)"
          by (cases "handle_channels E t_start fs_decim chans s")
        from handle_channels_changes [of E t_start fs_decim chans s] h
        obtain d out where s1: "s1 = s\<lparr>decoder_state := d, pktq := pktq s @ out\<rparr>" by auto
        have x1: "worker_exit s1 = s1" using s1 assms by (simp add: worker_exit_def)
        have wp: "worker_pass E t_start fs_decim cap s = (e, True, s1)"
          unfolding worker_pass_def if_not_P [OF ok] Full using h by simp
        have "worker_finish E t_start fs_decim in_flight s = s1"
          using Some wp x1 by (cases e) (simp_all add: worker_finish_def)
        then have "worker_finish E t_start fs_decim in_flight s
                     = s\<lparr>file_open := file_open s, decoder_state := d, pktq := pktq s @ out\<rparr>"
          using s1 by simp
        then show ?thesis by blast
      qed
    qed
  qed
qed

text \<open>
  C7. Cancel is idempotent. When \<open>worker_running\<close> is false (as it is before any
  receive, and after a cancel), \<open>cancel_recv\<close> leaves the whole session as it is: no
  exception is possible and nothing is put on the queue. When it is true, the flag
  is cleared and the worker is joined: the worker has changed nothing but the decoder
  state, the file (closed at its end) and the queue, to which it has only added; then
  the sentinel \<open>None\<close> is put on the queue once, after what the worker added. A
  receive that blocks on the queue is released, since the queue is not empty, and
  when the queue holds nothing else the receive gets the sentinel and the queue is
  empty again. A second cancel changes nothing.
\<close>

theorem cancel_recv_lifecycle:
  "(\<not> worker_running s \<longrightarrow> cancel_recv E t_start fs_decim in_flight s = s)
   \<and> (worker_running s \<longrightarrow>
        (\<exists>d fo out.
           worker_finish E t_start fs_decim in_flight (s\<lparr>worker_running := False\<rparr>)
             = s\<lparr>worker_running := False, file_open := fo, decoder_state := d,
                 pktq := pktq s @ out\<rparr>
         \<and> cancel_recv E t_start fs_decim in_flight s
             = s\<lparr>worker_running := False, file_open := fo, decoder_state := d,
                 pktq := pktq s @ out @ [PyNone]\<rparr>
         \<and> pktq_get (cancel_recv E t_start fs_decim in_flight s) \<noteq> None
         \<and> (pktq s @ out = [] \<longrightarrow>
              (\<exists>s'. pktq_get (cancel_recv E t_start fs_decim in_flight s) = Some (PyNone, s')
                    \<and> pktq_get s' = None))))
   \<and> cancel_recv E t_start' fs_decim' in_flight' (cancel_recv E t_start fs_decim in_flight s)
       = cancel_recv E t_start fs_decim in_flight s"
proof (intro conjI impI)
  assume "\<not> worker_running s"
  then show "cancel_recv E t_start fs_decim in_flight s = s"
    by (simp add: cancel_recv_def)
next
  assume run: "worker_running s"
  have nr: "\<not> worker_running (s\<lparr>worker_running := False\<rparr>)" by simp
  from worker_finish_changes [OF nr, of E t_start fs_decim in_flight]
  obtain d fo out where
    wf: "worker_finish E t_start fs_decim in_flight (s\<lparr>worker_running := False\<rparr>)
           = s\<lparr>worker_running := False, file_open := fo, decoder_state := d,
               pktq := pktq s @ out\<rparr>"
    by auto
  have c: "cancel_recv E t_start fs_decim in_flight s
             = s\<lparr>worker_running := False, file_open := fo, decoder_state := d,
                 pktq := pktq s @ out @ [PyNone]\<rparr>"
    using run by (simp add: cancel_recv_def Let_def wf)
  have g: "pktq_get (cancel_recv E t_start fs_decim in_flight s) \<noteq> None"
    unfolding c pktq_get_def by (simp split: list.splits)
  have one: "\<exists>s'. pktq_get (cancel_recv E t_start fs_decim in_flight s) = Some (PyNone, s')
                    \<and> pktq_get s' = None"
    if "pktq s @ out = []"
    unfolding c pktq_get_def using that by simp
  from wf c g one
  show "\<exists>d fo out.
           worker_finish E t_start fs_decim in_flight (s\<lparr>worker_running := False\<rparr>)
             = s\<lparr>worker_running := False, file_open := fo, decoder_state := d,
                 pktq := pktq s @ out\<rparr>
         \<and> cancel_recv E t_start fs_decim in_flight s
             = s\<lparr>worker_running := False, file_open := fo, decoder_state := d,
                 pktq := pktq s @ out @ [PyNone]\<rparr>
         \<and> pktq_get (cancel_recv E t_start fs_decim in_flight s) \<noteq> None
         \<and> (pktq s @ out = [] \<longrightarrow>
              (\<exists>s'. pktq_get (cancel_recv E t_start fs_decim in_flight s) = Some (PyNone, s')
                    \<and> pktq_get s' = None))"
    by blast
next
  show "cancel_recv E t_start' fs_decim' in_flight' (cancel_recv E t_start fs_decim in_flight s)
       = cancel_recv E t_start fs_decim in_flight s"
  proof (cases "worker_running s")
    case False
    then show ?thesis by (simp add: cancel_recv_def)
  next
    case True
    have nr: "\<not> worker_running (s\<lparr>worker_running := False\<rparr>)" by simp
    from worker_finish_changes [OF nr, of E t_start fs_decim in_flight]
    obtain d fo out where
      wf: "worker_finish E t_start fs_decim in_flight (s\<lparr>worker_running := False\<rparr>)
             = s\<lparr>worker_running := False, file_open := fo, decoder_state := d,
                 pktq := pktq s @ out\<rparr>"
      by auto
    have c: "cancel_recv E t_start fs_decim in_flight s
             = s\<lparr>worker_running := False, file_open := fo, decoder_state := d,
                 pktq := pktq s @ out @ [PyNone]\<rparr>"
      using True by (simp add: cancel_recv_def Let_def wf)
    show ?thesis
      unfolding c by (simp add: cancel_recv_def)
  qed
qed

lemma file_session_idle: "file_session\<lparr>worker_running := False\<rparr> = file_session"
  by (simp add: file_session_def)

lemma finish_adv:
  "worker_finish loopback 0 2000000 (Some (Full [(Some 37, 0, [(0, adv_burst)])])) file_session
     = file_session\<lparr>decoder_state := 1,
         pktq := [AdvertMessage adv_packet (Some [1, 2, 3, 4, 5, 6])]\<rparr>"
proof -
  have hb: "handle_burst loopback 37 0 2000000 0 0 adv_burst file_session
              = (None, file_session\<lparr>decoder_state := 1,
                   pktq := [AdvertMessage adv_packet (Some [1, 2, 3, 4, 5, 6])]\<rparr>)"
    using handle_adv [where d = 0 and qs = "[]"] by (simp add: file_session_def)
  have hc: "handle_channels loopback 0 2000000 [(Some 37, 0, [(0, adv_burst)])] file_session
              = (None, file_session\<lparr>decoder_state := 1,
                   pktq := [AdvertMessage adv_packet (Some [1, 2, 3, 4, 5, 6])]\<rparr>)"
    by (simp add: hb)
  have ok: "\<not> (sdr file_session = None \<and> \<not> file_open file_session)"
    by (simp add: file_session_def)
  have wp: "worker_pass loopback 0 2000000 (Full [(Some 37, 0, [(0, adv_burst)])]) file_session
              = (None, True, file_session\<lparr>decoder_state := 1,
                   pktq := [AdvertMessage adv_packet (Some [1, 2, 3, 4, 5, 6])]\<rparr>)"
    unfolding worker_pass_def if_not_P [OF ok] capture.case hc by simp
  show ?thesis
    unfolding worker_finish_def option.case wp by (simp add: worker_exit_def file_session_def)
qed

lemma finish_short:
  "worker_finish loopback 0 2000000 (Some Short) file_session = file_session\<lparr>file_open := False\<rparr>"
  by (simp add: worker_finish_def worker_pass_def worker_exit_def file_session_def)

theorem cancel_recv_lifecycle_witness:
  "cancel_recv loopback 0 2000000 None file_session = file_session
   \<and> cancel_recv loopback 0 2000000 (Some (Full [(Some 37, 0, [(0, adv_burst)])]))
         (file_session\<lparr>worker_running := True\<rparr>)
       = file_session\<lparr>decoder_state := 1,
           pktq := [AdvertMessage adv_packet (Some [1, 2, 3, 4, 5, 6]), PyNone]\<rparr>
   \<and> cancel_recv loopback 0 2000000 (Some Short) (file_session\<lparr>worker_running := True\<rparr>)
       = file_session\<lparr>file_open := False, pktq := [PyNone]\<rparr>
   \<and> pktq_get (cancel_recv loopback 0 2000000 (Some Short) (file_session\<lparr>worker_running := True\<rparr>))
       = Some (PyNone, file_session\<lparr>file_open := False\<rparr>)
   \<and> pktq_get (file_session\<lparr>file_open := False\<rparr>) = None
   \<and> cancel_recv loopback 0 2000000 None
         (cancel_recv loopback 0 2000000 (Some Short) (file_session\<lparr>worker_running := True\<rparr>))
       = cancel_recv loopback 0 2000000 (Some Short) (file_session\<lparr>worker_running := True\<rparr>)"
proof -
  have a: "cancel_recv loopback 0 2000000 None file_session = file_session"
    using cancel_recv_lifecycle [where s = file_session and E = loopback and t_start = 0
        and fs_decim = 2000000 and in_flight = None]
    by (simp add: file_session_def)
  have b: "cancel_recv loopback 0 2000000 (Some (Full [(Some 37, 0, [(0, adv_burst)])]))
         (file_session\<lparr>worker_running := True\<rparr>)
       = file_session\<lparr>decoder_state := 1,
           pktq := [AdvertMessage adv_packet (Some [1, 2, 3, 4, 5, 6]), PyNone]\<rparr>"
    by (simp add: cancel_recv_def Let_def file_session_idle finish_adv)
  have c: "cancel_recv loopback 0 2000000 (Some Short) (file_session\<lparr>worker_running := True\<rparr>)
       = file_session\<lparr>file_open := False, pktq := [PyNone]\<rparr>"
    by (simp add: cancel_recv_def Let_def file_session_idle finish_short)
       (simp add: file_session_def)
  have d: "pktq_get (cancel_recv loopback 0 2000000 (Some Short) (file_session\<lparr>worker_running := True\<rparr>))
       = Some (PyNone, file_session\<lparr>file_open := False\<rparr>)"
    unfolding c by (simp add: pktq_get_def file_session_def)
  have e: "pktq_get (file_session\<lparr>file_open := False\<rparr>) = None"
    by (simp add: pktq_get_def file_session_def)
  have f: "cancel_recv loopback 0 2000000 None
         (cancel_recv loopback 0 2000000 (Some Short) (file_session\<lparr>worker_running := True\<rparr>))
       = cancel_recv loopback 0 2000000 (Some Short) (file_session\<lparr>worker_running := True\<rparr>)"
    using cancel_recv_lifecycle [where s = "file_session\<lparr>worker_running := True\<rparr>"
        and E = loopback and t_start = 0 and fs_decim = 2000000 and in_flight = "Some Short"
        and t_start' = 0 and fs_decim' = 2000000 and in_flight' = None]
    by blast
  from a b c d e f show ?thesis by blast
qed

end
